theory Spec2Isabelle
  imports Complex_Main
begin

section \<open>Values, dictionaries and exceptions\<close>

text \<open>
  The handler of \<^verbatim>\<open>src/handler.py\<close> receives a job that the serverless host decoded
  from JSON, and reads the body of the inference server's reply with
  \<^verbatim>\<open>response.json()\<close>. Both are Python objects built from \<^verbatim>\<open>None\<close>, booleans,
  integers, floats, strings, lists and dictionaries with string keys. A dictionary is an
  association list in insertion order (Python dictionaries keep it); a dictionary made by
  the JSON decoder has no key twice. Floats are only passed through, and stand here as reals.
\<close>

datatype json =
    JNull
  | JBool bool
  | JInt int
  | JFloat real
  | JStr string
  | JList "json list"
  | JDict "(string \<times> json) list"

type_synonym dict = "(string \<times> json) list"

text \<open>
  One error of a pydantic validation: the field it is about and what was wrong with it.
\<close>

datatype verr =
    Missing string
  | StringType string
  | DictType string
  | LiteralError string
  | ModelType

text \<open>
  The exceptions that the statements of \<^verbatim>\<open>handler\<close> can raise. \<^verbatim>\<open>RequestException\<close> is
  the base class of the \<^verbatim>\<open>requests\<close> library; \<^verbatim>\<open>HTTPError\<close> (raised by
  \<^verbatim>\<open>raise_for_status\<close>, carrying the status code, the reason phrase and the URL) and the
  library's \<^verbatim>\<open>JSONDecodeError\<close> (raised by \<^verbatim>\<open>response.json()\<close>, in the versions from 2.27
  on) are subclasses of it.
\<close>

datatype exn =
    KeyError string
  | TypeError string
  | AttributeError string
  | ValidationError "verr list"
  | RequestException string
  | HTTPError int string string
  | JSONDecodeError string

fun is_RequestException :: "exn \<Rightarrow> bool" where
  "is_RequestException (RequestException _) = True"
| "is_RequestException (HTTPError _ _ _) = True"
| "is_RequestException (JSONDecodeError _) = True"
| "is_RequestException _ = False"

text \<open>\<^verbatim>\<open>d.get(k)\<close> on a dictionary: the value stored under the key, if any.\<close>

definition dict_get :: "dict \<Rightarrow> string \<Rightarrow> json option" where
  "dict_get d k = map_of d k"

text \<open>
  Storing a key, as the dictionary display \<^verbatim>\<open>{**d, k: v}\<close> does: a key that is already
  there keeps its place and takes the new value, a new key goes to the end.
\<close>

fun dict_set :: "dict \<Rightarrow> string \<Rightarrow> json \<Rightarrow> dict" where
  "dict_set [] k v = [(k, v)]"
| "dict_set ((k', v') # d) k v =
     (if k' = k then (k, v) # d else (k', v') # dict_set d k v)"

text \<open>
  \<^verbatim>\<open>job['input']\<close>: a dictionary gives the value or raises \<^verbatim>\<open>KeyError\<close>; every other
  JSON value raises \<^verbatim>\<open>TypeError\<close> (a list or a string wants an integer index, the others
  are not subscriptable).
\<close>

fun subscript :: "json \<Rightarrow> string \<Rightarrow> exn + json" where
  "subscript (JDict d) k =
     (case dict_get d k of None \<Rightarrow> Inl (KeyError k) | Some v \<Rightarrow> Inr v)"
| "subscript (JList _) k = Inl (TypeError ''list indices must be integers or slices, not str'')"
| "subscript (JStr _) k = Inl (TypeError ''string indices must be integers'')"
| "subscript _ k = Inl (TypeError ''object is not subscriptable'')"

text \<open>
  \<^verbatim>\<open>data.get("text", "")\<close>: only a dictionary has the method; on any other decoded body
  the attribute lookup raises \<^verbatim>\<open>AttributeError\<close>.
\<close>

fun get_default :: "json \<Rightarrow> string \<Rightarrow> json \<Rightarrow> exn + json" where
  "get_default (JDict d) k dflt =
     (case dict_get d k of None \<Rightarrow> Inr dflt | Some v \<Rightarrow> Inr v)"
| "get_default _ k dflt = Inl (AttributeError ''object has no attribute get'')"

text \<open>\<^verbatim>\<open>int(x)\<close> on a float truncates towards zero.\<close>

definition py_int :: "real \<Rightarrow> int" where
  "py_int x = (if 0 \<le> x then \<lfloor>x\<rfloor> else \<lceil>x\<rceil>)"

section \<open>The schemas\<close>

text \<open>
  \<^verbatim>\<open>APIInput\<close> (lines 18 to 27): \<^verbatim>\<open>prompt: str\<close>, required, with no further constraint;
  \<^verbatim>\<open>sampling_params: Dict[str, Any]\<close>, by default a new empty dictionary.
\<close>

record APIInput =
  prompt :: string
  sampling_params :: dict

text \<open>
  \<^verbatim>\<open>APIInput.parse_obj(obj)\<close>, as pydantic 2 validates (the handler calls
  \<^verbatim>\<open>model_dump\<close>, which only that version has). The object must be a dictionary. A string
  field takes a string only (a number is not converted); a \<^verbatim>\<open>Dict[str, Any]\<close> field takes a dictionary,
  whose keys are strings already and whose values are not looked at. Keys that are not
  fields are ignored. The errors of all fields are collected and raised together.
\<close>

definition validate_prompt :: "dict \<Rightarrow> verr list + string" where
  "validate_prompt d =
     (case dict_get d ''prompt'' of
        None \<Rightarrow> Inl [Missing ''prompt'']
      | Some (JStr s) \<Rightarrow> Inr s
      | Some _ \<Rightarrow> Inl [StringType ''prompt''])"

definition validate_sampling_params :: "dict \<Rightarrow> verr list + dict" where
  "validate_sampling_params d =
     (case dict_get d ''sampling_params'' of
        None \<Rightarrow> Inr []
      | Some (JDict sp) \<Rightarrow> Inr sp
      | Some _ \<Rightarrow> Inl [DictType ''sampling_params''])"

fun APIInput_parse_obj :: "json \<Rightarrow> exn + APIInput" where
  "APIInput_parse_obj (JDict d) =
     (case (validate_prompt d, validate_sampling_params d) of
        (Inr p, Inr sp) \<Rightarrow> Inr \<lparr>prompt = p, sampling_params = sp\<rparr>
      | (Inl e1, Inr _) \<Rightarrow> Inl (ValidationError e1)
      | (Inr _, Inl e2) \<Rightarrow> Inl (ValidationError e2)
      | (Inl e1, Inl e2) \<Rightarrow> Inl (ValidationError (e1 @ e2)))"
| "APIInput_parse_obj _ = Inl (ValidationError [ModelType])"

text \<open>
  \<^verbatim>\<open>APIOutput\<close> (lines 30 to 36). The handler passes strings for \<^verbatim>\<open>request_id\<close> and
  \<^verbatim>\<open>model_name\<close> and an integer for \<^verbatim>\<open>execution_time_ms\<close>; \<^verbatim>\<open>status\<close> must be one of the
  two literals; \<^verbatim>\<open>text_output\<close> is whatever the reply held under \<^verbatim>\<open>"text"\<close> and must be a
  string; \<^verbatim>\<open>error_message\<close> is an optional string, \<^verbatim>\<open>None\<close> when not given. The field
  \<^verbatim>\<open>execution_time_ms\<close> has no lower bound.
\<close>

record APIOutput =
  request_id :: string
  model_name :: string
  execution_time_ms :: int
  status :: string
  text_output :: string
  error_message :: "string option"

definition APIOutput_init ::
  "string \<Rightarrow> string \<Rightarrow> int \<Rightarrow> string \<Rightarrow> json \<Rightarrow> string option \<Rightarrow> exn + APIOutput" where
  "APIOutput_init rid mn ms st txt em =
     (let e1 = (if st = ''success'' \<or> st = ''error'' then [] else [LiteralError ''status''])
      in case txt of
           JStr s \<Rightarrow>
             (if e1 = [] then
                Inr \<lparr>request_id = rid, model_name = mn, execution_time_ms = ms,
                     status = st, text_output = s, error_message = em\<rparr>
              else Inl (ValidationError e1))
         | _ \<Rightarrow> Inl (ValidationError (e1 @ [StringType ''text_output''])))"

text \<open>\<^verbatim>\<open>model_dump()\<close>: the dictionary of all six fields, in the order of their declaration.\<close>

definition model_dump :: "APIOutput \<Rightarrow> dict" where
  "model_dump p =
     [(''request_id'', JStr (request_id p)),
      (''model_name'', JStr (model_name p)),
      (''execution_time_ms'', JInt (execution_time_ms p)),
      (''status'', JStr (status p)),
      (''text_output'', JStr (text_output p)),
      (''error_message'', (case error_message p of None \<Rightarrow> JNull | Some m \<Rightarrow> JStr m))]"

section \<open>The world around one invocation\<close>

text \<open>
  What \<^verbatim>\<open>requests.post\<close> gives back: it raises a \<^verbatim>\<open>RequestException\<close> with a message
  (no connection, a timeout, a payload it cannot send), or it returns a response. The body
  of a response either is not JSON (with the decoder's message) or decodes to a value.
\<close>

record response =
  status_code :: int
  reason :: string
  url :: string
  body :: "string + json"

datatype post_result = Raised string | Returned response

text \<open>
  Everything one run of \<^verbatim>\<open>handler\<close> reads from outside: the process environment
  (\<^verbatim>\<open>os.environ\<close>), the identifier that \<^verbatim>\<open>uuid.uuid4()\<close> draws, the two readings of
  \<^verbatim>\<open>time.time()\<close> (the wall clock, as real numbers of seconds: rounding of floats is not
  modelled), the \<^verbatim>\<open>base_url\<close> of the engine (the module \<^verbatim>\<open>engine\<close> is not part of the
  source at hand), the inference server behind \<^verbatim>\<open>requests.post\<close> as a function of the
  URL, the headers and the JSON payload, and the text that \<^verbatim>\<open>str(e)\<close> gives for an
  exception (the libraries' wording).
\<close>

record world =
  environ :: "string \<rightharpoonup> string"
  uuid4 :: string
  start_clock :: real
  end_clock :: real
  base_url :: string
  post :: "string \<Rightarrow> (string \<times> string) list \<Rightarrow> json \<Rightarrow> post_result"
  str_exn :: "exn \<Rightarrow> string"

type_synonym call = "string \<times> (string \<times> string) list \<times> json"

text \<open>\<^verbatim>\<open>os.environ.get(k, default)\<close>.\<close>

definition environ_get :: "(string \<rightharpoonup> string) \<Rightarrow> string \<Rightarrow> string \<Rightarrow> string" where
  "environ_get env k dflt = (case env k of None \<Rightarrow> dflt | Some v \<Rightarrow> v)"

text \<open>
  \<^verbatim>\<open>response.raise_for_status()\<close>: raises \<^verbatim>\<open>HTTPError\<close> for the status codes 400 to 599
  (``bad status codes (4xx or 5xx)'', line 89), and does nothing for any other code.
\<close>

definition raise_for_status :: "response \<Rightarrow> exn + unit" where
  "raise_for_status r =
     (if 400 \<le> status_code r \<and> status_code r < 600
      then Inl (HTTPError (status_code r) (reason r) (url r))
      else Inr ())"

text \<open>\<^verbatim>\<open>response.json()\<close>.\<close>

definition response_json :: "response \<Rightarrow> exn + json" where
  "response_json r = (case body r of Inl m \<Rightarrow> Inl (JSONDecodeError m) | Inr j \<Rightarrow> Inr j)"

section \<open>The handler\<close>

text \<open>Lines 78 to 84: the payload for the \<^verbatim>\<open>/generate\<close> endpoint.\<close>

definition build_payload :: "APIInput \<Rightarrow> json" where
  "build_payload validated_input =
     JDict [(''text'', JStr (prompt validated_input)),
            (''sampling_params'',
               JDict (dict_set (sampling_params validated_input) ''stream'' (JBool False)))]"

definition generate_url :: "world \<Rightarrow> string" where
  "generate_url w = base_url w @ ''/generate''"

definition headers :: "(string \<times> string) list" where
  "headers = [(''Content-Type'', ''application/json'')]"

text \<open>
  \<^verbatim>\<open>requests.post(url, json=payload, headers=headers)\<close>: the request goes out, which adds it
  to the list of the calls made so far, and the server's answer to this very request comes
  back.
\<close>

definition requests_post ::
  "world \<Rightarrow> string \<Rightarrow> (string \<times> string) list \<Rightarrow> json \<Rightarrow> call list \<Rightarrow>
     call list \<times> post_result" where
  "requests_post w u h p calls = (calls @ [(u, h, p)], post w u h p)"

text \<open>
  Lines 88 to 93, the body of the second \<^verbatim>\<open>try\<close>, from the calls made before it: the calls
  made after it, with the value of \<^verbatim>\<open>generated_text\<close> or the exception that one of the four
  statements raised.
\<close>

definition run_inference ::
  "world \<Rightarrow> json \<Rightarrow> call list \<Rightarrow> call list \<times> (exn + json)" where
  "run_inference w payload calls =
     (case requests_post w (generate_url w) headers payload calls of
        (calls', Raised m) \<Rightarrow> (calls', Inl (RequestException m))
      | (calls', Returned r) \<Rightarrow>
          (calls',
           case raise_for_status r of
             Inl e \<Rightarrow> Inl e
           | Inr _ \<Rightarrow>
               (case response_json r of
                  Inl e \<Rightarrow> Inl e
                | Inr sglang_response_data \<Rightarrow>
                    get_default sglang_response_data ''text'' (JStr ''''))))"

text \<open>
  \<^verbatim>\<open>int((end_time - start_time) * 1000)\<close>. The difference and the product are taken over
  the reals, where the code rounds each to a float: the two agree in sign always, and in
  value whenever the readings and the product are floats exactly (as for 10 and 10.5
  seconds), and can differ by one millisecond otherwise.
\<close>

definition elapsed_ms :: "world \<Rightarrow> int" where
  "elapsed_ms w = py_int ((end_clock w - start_clock w) * 1000)"

text \<open>Building an \<^verbatim>\<open>APIOutput\<close> and returning its \<^verbatim>\<open>model_dump()\<close>.\<close>

definition dump_output ::
  "string \<Rightarrow> string \<Rightarrow> int \<Rightarrow> string \<Rightarrow> json \<Rightarrow> string option \<Rightarrow> exn + dict" where
  "dump_output rid mn ms st txt em =
     (case APIOutput_init rid mn ms st txt em of
        Inl e \<Rightarrow> Inl e
      | Inr p \<Rightarrow> Inr (model_dump p))"

text \<open>
  Line 58, the body of the first \<^verbatim>\<open>try\<close>: \<^verbatim>\<open>APIInput.parse_obj(job['input'])\<close>.
\<close>

definition parse_job :: "json \<Rightarrow> exn + APIInput" where
  "parse_job job =
     (case subscript job ''input'' of
        Inl e \<Rightarrow> Inl e
      | Inr obj \<Rightarrow> APIInput_parse_obj obj)"

text \<open>
  \<^verbatim>\<open>handler(job)\<close>, lines 47 to 119. The result is the list of the calls that went out
  through \<^verbatim>\<open>requests.post\<close>, with what the function did: \<open>Inr\<close> the dictionary it returned, or
  \<open>Inl\<close> the exception it let through to its caller. The first \<^verbatim>\<open>try\<close> catches every
  \<^verbatim>\<open>Exception\<close>; the second catches \<^verbatim>\<open>requests.exceptions.RequestException\<close> only; the
  success payload is built outside of both.
\<close>

definition handler :: "world \<Rightarrow> json \<Rightarrow> call list \<times> (exn + dict)" where
  "handler w job =
     (let request_id = uuid4 w;
          model_name = environ_get (environ w) ''MODEL_NAME'' ''unknown''
      in case parse_job job of
           Inl e \<Rightarrow>
             ([], dump_output request_id model_name (elapsed_ms w) ''error'' (JStr '''')
                    (Some (''Input validation failed: '' @ str_exn w e)))
         | Inr validated_input \<Rightarrow>
             (let payload = build_payload validated_input
              in case run_inference w payload [] of
                   (calls, Inl e) \<Rightarrow>
                     (if is_RequestException e then
                        (calls, dump_output request_id model_name (elapsed_ms w) ''error''
                                  (JStr '''')
                                  (Some (''Request to SGLang server failed: '' @ str_exn w e)))
                      else (calls, Inl e))
                 | (calls, Inr generated_text) \<Rightarrow>
                     (calls, dump_output request_id model_name (elapsed_ms w) ''success''
                               generated_text None)))"

text \<open>
  The replies for which the handler is written: \<^verbatim>\<open>requests.post\<close> raised; or the
  status is one that \<^verbatim>\<open>raise_for_status\<close> rejects; or the body is a JSON object whose
  \<^verbatim>\<open>"text"\<close> is absent or a string; or the body is not JSON, which \<^verbatim>\<open>response.json()\<close>
  answers with the library's \<^verbatim>\<open>JSONDecodeError\<close>.
\<close>

definition expected_reply :: "post_result \<Rightarrow> bool" where
  "expected_reply pr =
     (case pr of
        Raised m \<Rightarrow> True
      | Returned r \<Rightarrow>
          (400 \<le> status_code r \<and> status_code r < 600) \<or>
          (case body r of
             Inl m \<Rightarrow> True
           | Inr (JDict d) \<Rightarrow>
               (case dict_get d ''text'' of
                  None \<Rightarrow> True
                | Some (JStr s) \<Rightarrow> True
                | Some _ \<Rightarrow> False)
           | Inr _ \<Rightarrow> False))"

section \<open>Concrete worlds and jobs\<close>

text \<open>
  A rendering of exceptions, and a world whose server gives the same answer to every
  request: the inputs at which the theorems below are evaluated.
\<close>

fun demo_str :: "exn \<Rightarrow> string" where
  "demo_str (RequestException m) = m"
| "demo_str (JSONDecodeError m) = m"
| "demo_str (HTTPError c r u) = r @ '' for url: '' @ u"
| "demo_str (KeyError k) = k"
| "demo_str (ValidationError es) = ''1 validation error for APIInput''"
| "demo_str _ = ''error''"

definition demo_world :: "(string \<rightharpoonup> string) \<Rightarrow> real \<Rightarrow> real \<Rightarrow> post_result \<Rightarrow> world" where
  "demo_world env t0 t1 r =
     \<lparr>environ = env, uuid4 = ''0b0e7f6a-7a59-4c55-9d0a-3d1f6c8e2a11'',
      start_clock = t0, end_clock = t1, base_url = ''http://0.0.0.0:30000'',
      post = (\<lambda>u h p. r), str_exn = demo_str\<rparr>"

definition reply :: "int \<Rightarrow> json \<Rightarrow> post_result" where
  "reply code j =
     Returned \<lparr>status_code = code, reason = ''status'',
               url = ''http://0.0.0.0:30000/generate'', body = Inr j\<rparr>"

definition named :: "string \<Rightarrow> (string \<rightharpoonup> string)" where
  "named n = [''MODEL_NAME'' \<mapsto> n]"

definition job_hi :: json where
  "job_hi = JDict [(''input'', JDict [(''prompt'', JStr ''Say hi''),
                                      (''sampling_params'', JDict [(''max_new_tokens'', JInt 5)])])]"

definition job_stream :: json where
  "job_stream = JDict [(''input'', JDict [(''prompt'', JStr ''Say hi''),
     (''sampling_params'', JDict [(''stream'', JBool True), (''temperature'', JFloat 0.7)])])]"

definition job_empty_prompt :: json where
  "job_empty_prompt = JDict [(''input'', JDict [(''prompt'', JStr '''')])]"

definition job_no_prompt :: json where
  "job_no_prompt = JDict [(''input'', JDict [(''sampling_params'', JDict [])])]"

definition job_int_prompt :: json where
  "job_int_prompt = JDict [(''input'', JDict [(''prompt'', JInt 42)])]"

text \<open>
  A server that answers one request only, the one that the job \<^verbatim>\<open>job_stream\<close> must
  lead to, and refuses every other; and the world around it.
\<close>

definition exact_server :: "string \<Rightarrow> (string \<times> string) list \<Rightarrow> json \<Rightarrow> post_result" where
  "exact_server u h p =
     (if u = ''http://0.0.0.0:30000/generate'' \<and>
         h = [(''Content-Type'', ''application/json'')] \<and>
         p = JDict [(''text'', JStr ''Say hi''),
                    (''sampling_params'',
                     JDict [(''stream'', JBool False), (''temperature'', JFloat 0.7)])]
      then reply 200 (JDict [(''text'', JStr ''Hi!'')])
      else Raised ''unexpected request'')"

definition exact_world :: world where
  "exact_world =
     \<lparr>environ = Map.empty, uuid4 = ''0b0e7f6a-7a59-4c55-9d0a-3d1f6c8e2a11'',
      start_clock = 10, end_clock = 10.5, base_url = ''http://0.0.0.0:30000'',
      post = exact_server, str_exn = demo_str\<rparr>"

lemmas model_defs =
  handler_def parse_job_def dict_get_def validate_prompt_def validate_sampling_params_def
  requests_post_def run_inference_def raise_for_status_def response_json_def build_payload_def
  dump_output_def APIOutput_init_def model_dump_def environ_get_def elapsed_ms_def
  py_int_def generate_url_def headers_def

lemmas demo_defs =
  demo_world_def reply_def named_def job_hi_def job_stream_def job_empty_prompt_def
  job_no_prompt_def job_int_prompt_def

section \<open>The three ways through the handler\<close>

text \<open>
  What \<^verbatim>\<open>handler\<close> returns on each of its paths, for any world and any job: the
  validation failed; the inference raised an exception that the second \<^verbatim>\<open>try\<close> catches,
  or one that it does not catch; the inference gave a text, or something that is not one.
\<close>

lemma dump_output_str:
  "st = ''success'' \<or> st = ''error'' \<Longrightarrow>
   dump_output rid mn ms st (JStr s) em =
     Inr [(''request_id'', JStr rid), (''model_name'', JStr mn), (''execution_time_ms'', JInt ms),
          (''status'', JStr st), (''text_output'', JStr s),
          (''error_message'', (case em of None \<Rightarrow> JNull | Some m \<Rightarrow> JStr m))]"
  by (auto simp: dump_output_def APIOutput_init_def model_dump_def)

lemma dump_output_not_str:
  "(\<And>s. g \<noteq> JStr s) \<Longrightarrow> \<exists>e. dump_output rid mn ms st g em = Inl e"
  by (cases g) (auto simp: dump_output_def APIOutput_init_def)

lemma handler_invalid:
  assumes "parse_job job = Inl e"
  shows "handler w job =
    ([], Inr [(''request_id'', JStr (uuid4 w)),
              (''model_name'', JStr (environ_get (environ w) ''MODEL_NAME'' ''unknown'')),
              (''execution_time_ms'', JInt (elapsed_ms w)),
              (''status'', JStr ''error''), (''text_output'', JStr ''''),
              (''error_message'', JStr (''Input validation failed: '' @ str_exn w e))])"
  using assms by (simp add: handler_def dump_output_str)

lemma fst_run_inference:
  "fst (run_inference w p calls) = calls @ [(generate_url w, headers, p)]"
  by (simp add: run_inference_def requests_post_def split: post_result.splits)

lemma handler_valid:
  assumes "parse_job job = Inr v"
  shows "handler w job =
    ([(generate_url w, headers, build_payload v)],
     (case snd (run_inference w (build_payload v) []) of
        Inl e \<Rightarrow>
          if is_RequestException e
          then dump_output (uuid4 w) (environ_get (environ w) ''MODEL_NAME'' ''unknown'')
                 (elapsed_ms w) ''error'' (JStr '''')
                 (Some (''Request to SGLang server failed: '' @ str_exn w e))
          else Inl e
      | Inr g \<Rightarrow>
          dump_output (uuid4 w) (environ_get (environ w) ''MODEL_NAME'' ''unknown'')
            (elapsed_ms w) ''success'' g None))"
proof -
  obtain calls res where r: "run_inference w (build_payload v) [] = (calls, res)"
    by (cases "run_inference w (build_payload v) []") blast
  with fst_run_inference [of w "build_payload v" "[]"]
  have "calls = [(generate_url w, headers, build_payload v)]" by simp
  with assms r show ?thesis by (simp add: handler_def split: sum.splits)
qed

lemma handler_caught:
  assumes "parse_job job = Inr v" and "snd (run_inference w (build_payload v) []) = Inl e"
    and "is_RequestException e"
  shows "handler w job =
    ([(generate_url w, headers, build_payload v)],
     Inr [(''request_id'', JStr (uuid4 w)),
          (''model_name'', JStr (environ_get (environ w) ''MODEL_NAME'' ''unknown'')),
          (''execution_time_ms'', JInt (elapsed_ms w)),
          (''status'', JStr ''error''), (''text_output'', JStr ''''),
          (''error_message'', JStr (''Request to SGLang server failed: '' @ str_exn w e))])"
  using assms by (simp add: handler_valid dump_output_str)

lemma handler_uncaught:
  assumes "parse_job job = Inr v" and "snd (run_inference w (build_payload v) []) = Inl e"
    and "\<not> is_RequestException e"
  shows "handler w job = ([(generate_url w, headers, build_payload v)], Inl e)"
  using assms by (simp add: handler_valid)

lemma handler_generated:
  assumes "parse_job job = Inr v" and "snd (run_inference w (build_payload v) []) = Inr (JStr s)"
  shows "handler w job =
    ([(generate_url w, headers, build_payload v)],
     Inr [(''request_id'', JStr (uuid4 w)),
          (''model_name'', JStr (environ_get (environ w) ''MODEL_NAME'' ''unknown'')),
          (''execution_time_ms'', JInt (elapsed_ms w)),
          (''status'', JStr ''success''), (''text_output'', JStr s),
          (''error_message'', JNull)])"
  using assms by (simp add: handler_valid dump_output_str)

lemma handler_generated_not_str:
  assumes "parse_job job = Inr v" and "snd (run_inference w (build_payload v) []) = Inr g"
    and "\<And>s. g \<noteq> JStr s"
  shows "\<exists>e. handler w job = ([(generate_url w, headers, build_payload v)], Inl e)"
  using assms dump_output_not_str[of g] by (simp add: handler_valid)

lemma fst_handler_valid:
  "parse_job job = Inr v \<Longrightarrow> fst (handler w job) = [(generate_url w, headers, build_payload v)]"
  by (simp add: handler_valid)

lemma fst_handler_invalid:
  "parse_job job = Inl e \<Longrightarrow> fst (handler w job) = []"
  by (simp add: handler_def)

lemma run_inference_Raised:
  "post w (generate_url w) headers p = Raised m \<Longrightarrow> snd (run_inference w p []) = Inl (RequestException m)"
  by (simp add: run_inference_def requests_post_def)

lemma run_inference_bad_status:
  "post w (generate_url w) headers p = Returned r \<Longrightarrow> 400 \<le> status_code r \<Longrightarrow>
   status_code r < 600 \<Longrightarrow>
   snd (run_inference w p []) = Inl (HTTPError (status_code r) (reason r) (url r))"
  by (simp add: run_inference_def requests_post_def raise_for_status_def)

lemma run_inference_not_json:
  "post w (generate_url w) headers p = Returned r \<Longrightarrow>
   \<not> (400 \<le> status_code r \<and> status_code r < 600) \<Longrightarrow> body r = Inl m \<Longrightarrow>
   snd (run_inference w p []) = Inl (JSONDecodeError m)"
  by (simp add: run_inference_def requests_post_def raise_for_status_def response_json_def)

lemma run_inference_object:
  "post w (generate_url w) headers p = Returned r \<Longrightarrow>
   \<not> (400 \<le> status_code r \<and> status_code r < 600) \<Longrightarrow> body r = Inr (JDict d) \<Longrightarrow>
   snd (run_inference w p []) = Inr (case dict_get d ''text'' of None \<Rightarrow> JStr '''' | Some v \<Rightarrow> v)"
  by (simp add: run_inference_def requests_post_def raise_for_status_def response_json_def split: option.splits)

lemma run_inference_expected:
  assumes "expected_reply (post w (generate_url w) headers p)"
  shows "(\<exists>e. snd (run_inference w p []) = Inl e \<and> is_RequestException e) \<or>
         (\<exists>s. snd (run_inference w p []) = Inr (JStr s))"
proof (cases "post w (generate_url w) headers p")
  case (Raised m)
  then show ?thesis by (simp add: run_inference_Raised)
next
  case (Returned r)
  show ?thesis
  proof (cases "400 \<le> status_code r \<and> status_code r < 600")
    case True
    with Returned show ?thesis by (simp add: run_inference_bad_status)
  next
    case False
    show ?thesis
    proof (cases "body r")
      case (Inl m)
      with Returned False show ?thesis by (simp add: run_inference_not_json)
    next
      case (Inr j)
      with assms Returned False obtain d where d: "j = JDict d"
        and t: "dict_get d ''text'' = None \<or> (\<exists>s. dict_get d ''text'' = Some (JStr s))"
        by (auto simp: expected_reply_def split: json.splits option.splits)
      from Returned False Inr d have "snd (run_inference w p []) =
          Inr (case dict_get d ''text'' of None \<Rightarrow> JStr '''' | Some v \<Rightarrow> v)"
        by (simp add: run_inference_object)
      with t show ?thesis by auto
    qed
  qed
qed

lemma parse_job_hi:
  "parse_job job_hi = Inr \<lparr>prompt = ''Say hi'', sampling_params = [(''max_new_tokens'', JInt 5)]\<rparr>"
  by (simp add: parse_job_def job_hi_def dict_get_def validate_prompt_def
      validate_sampling_params_def)

lemma parse_job_stream:
  "parse_job job_stream =
     Inr \<lparr>prompt = ''Say hi'',
          sampling_params = [(''stream'', JBool True), (''temperature'', JFloat 0.7)]\<rparr>"
  by (simp add: parse_job_def job_stream_def dict_get_def validate_prompt_def
      validate_sampling_params_def)

section \<open>No exception reaches the host (C1)\<close>

text \<open>
  Claim C1, as amended. For every world and every job, if each call that the handler made to
  \<^verbatim>\<open>requests.post\<close> got an expected reply (the call raised a request exception, or the
  status was 4xx or 5xx, or the body was not JSON, or the body was a JSON object whose
  \<^verbatim>\<open>"text"\<close> is absent or a string), then \<^verbatim>\<open>handler\<close> lets no exception through and
  returns the envelope of the six fields, in which every failure is captured: a failed
  validation gives \<^verbatim>\<open>status\<close> \<^verbatim>\<open>"error"\<close>, an empty \<^verbatim>\<open>text_output\<close> and the message
  \<^verbatim>\<open>"Input validation failed: "\<close> with the text of the exception; a raised request
  exception, a status 4xx or 5xx and a body that is not JSON give \<^verbatim>\<open>"error"\<close>, an empty
  \<^verbatim>\<open>text_output\<close> and \<^verbatim>\<open>"Request to SGLang server failed: "\<close> with the text of that
  exception; and only a JSON object gives \<^verbatim>\<open>"success"\<close>, with its \<^verbatim>\<open>"text"\<close> (empty when
  absent) and a null \<^verbatim>\<open>error_message\<close>. Every job is covered: a job without \<^verbatim>\<open>input\<close>, or
  that is no dictionary, or with an invalid input, makes no call at all.
\<close>

theorem handler_returns_envelope:
  assumes "\<forall>c \<in> set (fst (handler w job)).
             expected_reply (post w (fst c) (fst (snd c)) (snd (snd c)))"
  shows "\<exists>st t em.
           snd (handler w job) =
             Inr [(''request_id'', JStr (uuid4 w)),
                  (''model_name'', JStr (environ_get (environ w) ''MODEL_NAME'' ''unknown'')),
                  (''execution_time_ms'', JInt (elapsed_ms w)),
                  (''status'', JStr st), (''text_output'', JStr t), (''error_message'', em)] \<and>
           (case parse_job job of
              Inl e \<Rightarrow>
                st = ''error'' \<and> t = '''' \<and>
                em = JStr (''Input validation failed: '' @ str_exn w e)
            | Inr v \<Rightarrow>
                (case post w (generate_url w) headers (build_payload v) of
                   Raised m \<Rightarrow>
                     st = ''error'' \<and> t = '''' \<and>
                     em = JStr (''Request to SGLang server failed: '' @
                                str_exn w (RequestException m))
                 | Returned r \<Rightarrow>
                     if 400 \<le> status_code r \<and> status_code r < 600
                     then st = ''error'' \<and> t = '''' \<and>
                          em = JStr (''Request to SGLang server failed: '' @
                                     str_exn w (HTTPError (status_code r) (reason r) (url r)))
                     else (case body r of
                             Inl m \<Rightarrow>
                               st = ''error'' \<and> t = '''' \<and>
                               em = JStr (''Request to SGLang server failed: '' @
                                          str_exn w (JSONDecodeError m))
                           | Inr j \<Rightarrow>
                               st = ''success'' \<and> em = JNull \<and>
                               (\<exists>d. j = JDict d \<and>
                                  (dict_get d ''text'' = None \<and> t = '''' \<or>
                                   dict_get d ''text'' = Some (JStr t))))))"
proof (cases "parse_job job")
  case (Inl e)
  then show ?thesis by (simp add: handler_invalid)
next
  case (Inr v)
  with assms have ex: "expected_reply (post w (generate_url w) headers (build_payload v))"
    by (simp add: fst_handler_valid)
  show ?thesis
  proof (cases "post w (generate_url w) headers (build_payload v)")
    case (Raised m)
    from handler_caught [OF Inr run_inference_Raised [OF Raised]] Inr Raised
    show ?thesis by simp
  next
    case (Returned r)
    show ?thesis
    proof (cases "400 \<le> status_code r \<and> status_code r < 600")
      case True
      then have "snd (run_inference w (build_payload v) []) =
          Inl (HTTPError (status_code r) (reason r) (url r))"
        using Returned by (simp add: run_inference_bad_status)
      from handler_caught [OF Inr this] Inr Returned show ?thesis by (simp add: True)
    next
      case False
      show ?thesis
      proof (cases "body r")
        case (Inl m)
        from handler_caught [OF Inr run_inference_not_json [OF Returned False Inl]]
          Inr Returned Inl
        show ?thesis by (simp add: False)
      next
        case j: (Inr j)
        with ex Returned False obtain d where d: "j = JDict d"
          and t: "dict_get d ''text'' = None \<or> (\<exists>s. dict_get d ''text'' = Some (JStr s))"
          by (auto simp: expected_reply_def split: json.splits option.splits)
        from j d have b: "body r = Inr (JDict d)" by simp
        note ri = run_inference_object [OF Returned False b]
        from t show ?thesis
        proof
          assume n: "dict_get d ''text'' = None"
          with ri have "snd (run_inference w (build_payload v) []) = Inr (JStr '''')" by simp
          from handler_generated [OF Inr this] Inr Returned j d n
          show ?thesis by (simp add: False)
        next
          assume "\<exists>s. dict_get d ''text'' = Some (JStr s)"
          then obtain s where s: "dict_get d ''text'' = Some (JStr s)" by blast
          with ri have "snd (run_inference w (build_payload v) []) = Inr (JStr s)" by simp
          from handler_generated [OF Inr this] Inr Returned j d s
          show ?thesis by (simp add: False)
        qed
      qed
    qed
  qed
qed

text \<open>
  The theorem at a refused connection with a valid job, and at an invalid job, which makes
  no call: both runs return the error envelope.
\<close>

theorem handler_returns_envelope_witness:
  "expected_reply (Raised ''Connection refused'') \<and>
   snd (handler (demo_world Map.empty 10 10.5 (Raised ''Connection refused'')) job_hi) =
     Inr [(''request_id'', JStr ''0b0e7f6a-7a59-4c55-9d0a-3d1f6c8e2a11''),
          (''model_name'', JStr ''unknown''),
          (''execution_time_ms'', JInt 500),
          (''status'', JStr ''error''), (''text_output'', JStr ''''),
          (''error_message'', JStr ''Request to SGLang server failed: Connection refused'')] \<and>
   fst (handler (demo_world Map.empty 10 10.5 (reply 200 (JDict []))) job_int_prompt) = [] \<and>
   snd (handler (demo_world Map.empty 10 10.5 (reply 200 (JDict []))) job_int_prompt) =
     Inr [(''request_id'', JStr ''0b0e7f6a-7a59-4c55-9d0a-3d1f6c8e2a11''),
          (''model_name'', JStr ''unknown''),
          (''execution_time_ms'', JInt 500),
          (''status'', JStr ''error''), (''text_output'', JStr ''''),
          (''error_message'', JStr ''Input validation failed: 1 validation error for APIInput'')]"
proof -
  let ?w1 = "demo_world Map.empty 10 10.5 (Raised ''Connection refused'')"
  let ?w2 = "demo_world Map.empty 10 10.5 (reply 200 (JDict []))"
  have p2: "parse_job job_int_prompt = Inl (ValidationError [StringType ''prompt''])"
    by (simp add: parse_job_def job_int_prompt_def dict_get_def validate_prompt_def
        validate_sampling_params_def)
  have f1: "fst (handler ?w1 job_hi) =
      [(generate_url ?w1, headers,
        build_payload \<lparr>prompt = ''Say hi'', sampling_params = [(''max_new_tokens'', JInt 5)]\<rparr>)]"
    by (simp add: fst_handler_valid parse_job_hi)
  have f2: "fst (handler ?w2 job_int_prompt) = []"
    by (simp add: fst_handler_invalid p2)
  have e1: "expected_reply (Raised ''Connection refused'')"
    by (simp add: expected_reply_def)
  have h1: "\<forall>c \<in> set (fst (handler ?w1 job_hi)).
             expected_reply (post ?w1 (fst c) (fst (snd c)) (snd (snd c)))"
    unfolding f1 by (simp add: e1 demo_world_def)
  have h2: "\<forall>c \<in> set (fst (handler ?w2 job_int_prompt)).
             expected_reply (post ?w2 (fst c) (fst (snd c)) (snd (snd c)))"
    unfolding f2 by simp
  from handler_returns_envelope [OF h1] have "snd (handler ?w1 job_hi) =
     Inr [(''request_id'', JStr ''0b0e7f6a-7a59-4c55-9d0a-3d1f6c8e2a11''),
          (''model_name'', JStr ''unknown''),
          (''execution_time_ms'', JInt 500),
          (''status'', JStr ''error''), (''text_output'', JStr ''''),
          (''error_message'', JStr ''Request to SGLang server failed: Connection refused'')]"
    by (auto simp: parse_job_hi demo_world_def environ_get_def elapsed_ms_def py_int_def)
  moreover from handler_returns_envelope [OF h2] have
    "snd (handler ?w2 job_int_prompt) =
     Inr [(''request_id'', JStr ''0b0e7f6a-7a59-4c55-9d0a-3d1f6c8e2a11''),
          (''model_name'', JStr ''unknown''),
          (''execution_time_ms'', JInt 500),
          (''status'', JStr ''error''), (''text_output'', JStr ''''),
          (''error_message'', JStr ''Input validation failed: 1 validation error for APIInput'')]"
    by (auto simp: p2 demo_world_def environ_get_def elapsed_ms_def py_int_def)
  ultimately show ?thesis using e1 f2 by simp
qed

text \<open>
  Claim C1 as stated fails: the server answers 200 with a JSON list (one object per sample),
  \<^verbatim>\<open>.get\<close> raises \<^verbatim>\<open>AttributeError\<close>, which is no \<^verbatim>\<open>RequestException\<close>, and the
  handler lets it through.
\<close>

theorem handler_propagates_counterexample:
  "handler (demo_world Map.empty 10 10.5 (reply 200 (JList [JDict [(''text'', JStr ''Hi!'')]]))) job_hi =
     ([(''http://0.0.0.0:30000/generate'', [(''Content-Type'', ''application/json'')],
        JDict [(''text'', JStr ''Say hi''),
               (''sampling_params'', JDict [(''max_new_tokens'', JInt 5), (''stream'', JBool False)])])],
      Inl (AttributeError ''object has no attribute get''))"
  by (simp add: model_defs demo_defs)

text \<open>
  Likewise a \<^verbatim>\<open>"text"\<close> that is \<^verbatim>\<open>null\<close>: the success payload is built outside of the
  \<^verbatim>\<open>try\<close> blocks, and its validation error reaches the caller.
\<close>

lemma handler_propagates_validation_error:
  "snd (handler (demo_world Map.empty 10 10.5 (reply 200 (JDict [(''text'', JNull)]))) job_hi) =
     Inl (ValidationError [StringType ''text_output''])"
  by (simp add: model_defs demo_defs)

section \<open>The body of the downstream request (C2)\<close>

lemma dict_get_dict_set_same: "dict_get (dict_set d k v) k = Some v"
  by (induction d) (auto simp: dict_get_def)

lemma dict_get_dict_set_other: "k' \<noteq> k \<Longrightarrow> dict_get (dict_set d k v) k' = dict_get d k'"
  by (induction d) (auto simp: dict_get_def)

lemma parse_job_Inr:
  assumes "parse_job job = Inr v"
  shows "\<exists>j inp. job = JDict j \<and> dict_get j ''input'' = Some (JDict inp) \<and>
           dict_get inp ''prompt'' = Some (JStr (prompt v)) \<and>
           (dict_get inp ''sampling_params'' = None \<and> sampling_params v = [] \<or>
            dict_get inp ''sampling_params'' = Some (JDict (sampling_params v)))"
proof -
  from assms obtain obj where o: "subscript job ''input'' = Inr obj" "APIInput_parse_obj obj = Inr v"
    by (auto simp: parse_job_def split: sum.splits)
  from o(1) obtain j where j: "job = JDict j" "dict_get j ''input'' = Some obj"
    by (cases job) (auto split: option.splits)
  from o(2) obtain inp where inp: "obj = JDict inp"
    by (cases obj) auto
  from o(2) inp have "dict_get inp ''prompt'' = Some (JStr (prompt v))"
    by (auto simp: validate_prompt_def split: sum.splits option.splits json.splits)
  moreover from o(2) inp have "dict_get inp ''sampling_params'' = None \<and> sampling_params v = [] \<or>
            dict_get inp ''sampling_params'' = Some (JDict (sampling_params v))"
    by (auto simp: validate_sampling_params_def split: sum.splits option.splits json.splits)
  ultimately show ?thesis using j inp by blast
qed

lemma handler_post_cong:
  assumes "p' (generate_url w) headers (build_payload v) =
           post w (generate_url w) headers (build_payload v)"
    and "parse_job job = Inr v"
  shows "handler (w\<lparr>post := p'\<rparr>) job = handler w job"
proof -
  have "run_inference (w\<lparr>post := p'\<rparr>) (build_payload v) [] =
        run_inference w (build_payload v) []"
    using assms(1) by (simp add: run_inference_def requests_post_def generate_url_def)
  moreover have "elapsed_ms (w\<lparr>post := p'\<rparr>) = elapsed_ms w"
    by (simp add: elapsed_ms_def)
  moreover have "generate_url (w\<lparr>post := p'\<rparr>) = generate_url w"
    by (simp add: generate_url_def)
  ultimately show ?thesis
    using assms(2) by (simp add: handler_valid split: sum.splits)
qed

text \<open>
  Claim C2. For every job that passes validation, with the validated request \<open>v\<close>, exactly
  one request goes out through \<^verbatim>\<open>requests.post\<close>, to the \<^verbatim>\<open>/generate\<close> URL with the JSON
  content type, and its body is the object with \<^verbatim>\<open>"text"\<close> the prompt of \<open>v\<close> and
  \<^verbatim>\<open>"sampling_params"\<close> a dictionary in which \<^verbatim>\<open>"stream"\<close> is \<^verbatim>\<open>false\<close>, whatever the
  caller gave under that key, and every other key has the caller's value (and is absent if
  the caller did not give it). This body is the argument at which the server is asked: the
  handler's result is the same for any server that answers this one request alike, an
  exception raised for this request is the one reported in the error envelope, and a reply
  200 to this request with a text is the text of the success envelope.
\<close>

theorem handler_post_body:
  assumes "parse_job job = Inr v"
  shows "\<exists>sp sent.
           sent = JDict [(''text'', JStr (prompt v)), (''sampling_params'', JDict sp)] \<and>
           fst (handler w job) = [(generate_url w, headers, sent)] \<and>
           dict_get sp ''stream'' = Some (JBool False) \<and>
           (\<forall>k. k \<noteq> ''stream'' \<longrightarrow> dict_get sp k = dict_get (sampling_params v) k) \<and>
           (\<forall>p'. p' (generate_url w) headers sent = post w (generate_url w) headers sent \<longrightarrow>
                 handler (w\<lparr>post := p'\<rparr>) job = handler w job) \<and>
           (\<forall>m. post w (generate_url w) headers sent = Raised m \<longrightarrow>
                 snd (handler w job) =
                   Inr [(''request_id'', JStr (uuid4 w)),
                        (''model_name'', JStr (environ_get (environ w) ''MODEL_NAME'' ''unknown'')),
                        (''execution_time_ms'', JInt (elapsed_ms w)),
                        (''status'', JStr ''error''), (''text_output'', JStr ''''),
                        (''error_message'',
                         JStr (''Request to SGLang server failed: '' @
                               str_exn w (RequestException m)))]) \<and>
           (\<forall>r s. post w (generate_url w) headers sent = Returned r \<and>
                  status_code r = 200 \<and> body r = Inr (JDict [(''text'', JStr s)]) \<longrightarrow>
                 snd (handler w job) =
                   Inr [(''request_id'', JStr (uuid4 w)),
                        (''model_name'', JStr (environ_get (environ w) ''MODEL_NAME'' ''unknown'')),
                        (''execution_time_ms'', JInt (elapsed_ms w)),
                        (''status'', JStr ''success''), (''text_output'', JStr s),
                        (''error_message'', JNull)])"
proof -
  let ?sp = "dict_set (sampling_params v) ''stream'' (JBool False)"
  let ?body = "JDict [(''text'', JStr (prompt v)), (''sampling_params'', JDict ?sp)]"
  have b: "build_payload v = ?body" by (simp add: build_payload_def)
  have 1: "fst (handler w job) = [(generate_url w, headers, ?body)]"
    using assms by (simp add: fst_handler_valid b)
  have 2: "dict_get ?sp ''stream'' = Some (JBool False)"
    by (rule dict_get_dict_set_same)
  have 3: "\<forall>k. k \<noteq> ''stream'' \<longrightarrow> dict_get ?sp k = dict_get (sampling_params v) k"
    by (simp add: dict_get_dict_set_other)
  have 4: "\<forall>p'. p' (generate_url w) headers ?body = post w (generate_url w) headers ?body \<longrightarrow>
                 handler (w\<lparr>post := p'\<rparr>) job = handler w job"
    using handler_post_cong [OF _ assms, of _ w] by (simp add: b)
  have 5: "\<forall>m. post w (generate_url w) headers ?body = Raised m \<longrightarrow>
                 snd (handler w job) =
                   Inr [(''request_id'', JStr (uuid4 w)),
                        (''model_name'', JStr (environ_get (environ w) ''MODEL_NAME'' ''unknown'')),
                        (''execution_time_ms'', JInt (elapsed_ms w)),
                        (''status'', JStr ''error''), (''text_output'', JStr ''''),
                        (''error_message'',
                         JStr (''Request to SGLang server failed: '' @
                               str_exn w (RequestException m)))]"
  proof (intro allI impI)
    fix m assume "post w (generate_url w) headers ?body = Raised m"
    then have "snd (run_inference w (build_payload v) []) = Inl (RequestException m)"
      by (simp add: run_inference_Raised b)
    from handler_caught [OF assms this] show "snd (handler w job) =
                   Inr [(''request_id'', JStr (uuid4 w)),
                        (''model_name'', JStr (environ_get (environ w) ''MODEL_NAME'' ''unknown'')),
                        (''execution_time_ms'', JInt (elapsed_ms w)),
                        (''status'', JStr ''error''), (''text_output'', JStr ''''),
                        (''error_message'',
                         JStr (''Request to SGLang server failed: '' @
                               str_exn w (RequestException m)))]"
      by simp
  qed
  have 6: "\<forall>r s. post w (generate_url w) headers ?body = Returned r \<and>
                  status_code r = 200 \<and> body r = Inr (JDict [(''text'', JStr s)]) \<longrightarrow>
                 snd (handler w job) =
                   Inr [(''request_id'', JStr (uuid4 w)),
                        (''model_name'', JStr (environ_get (environ w) ''MODEL_NAME'' ''unknown'')),
                        (''execution_time_ms'', JInt (elapsed_ms w)),
                        (''status'', JStr ''success''), (''text_output'', JStr s),
                        (''error_message'', JNull)]"
  proof (intro allI impI)
    fix r s
    assume a: "post w (generate_url w) headers ?body = Returned r \<and>
                  status_code r = 200 \<and> body r = Inr (JDict [(''text'', JStr s)])"
    then have p: "post w (generate_url w) headers (build_payload v) = Returned r"
      and c: "\<not> (400 \<le> status_code r \<and> status_code r < 600)"
      and d: "body r = Inr (JDict [(''text'', JStr s)])"
      by (simp_all add: b)
    from run_inference_object [OF p c d]
    have "snd (run_inference w (build_payload v) []) = Inr (JStr s)"
      by (simp add: dict_get_def)
    from handler_generated [OF assms this] show "snd (handler w job) =
                   Inr [(''request_id'', JStr (uuid4 w)),
                        (''model_name'', JStr (environ_get (environ w) ''MODEL_NAME'' ''unknown'')),
                        (''execution_time_ms'', JInt (elapsed_ms w)),
                        (''status'', JStr ''success''), (''text_output'', JStr s),
                        (''error_message'', JNull)]"
      by simp
  qed
  from 1 2 3 4 5 6 show ?thesis by blast
qed

text \<open>
  The theorem at the job with \<^verbatim>\<open>{"stream": true, "temperature": 0.7}\<close>, in the world whose
  server refuses every request but the expected one: the body sent has \<^verbatim>\<open>"stream"\<close> false
  and \<^verbatim>\<open>"temperature"\<close> 0.7, and the run ends in success.
\<close>

theorem handler_post_body_witness:
  "parse_job job_stream =
     Inr \<lparr>prompt = ''Say hi'',
          sampling_params = [(''stream'', JBool True), (''temperature'', JFloat 0.7)]\<rparr> \<and>
   (\<exists>sp. fst (handler exact_world job_stream) =
           [(''http://0.0.0.0:30000/generate'', [(''Content-Type'', ''application/json'')],
             JDict [(''text'', JStr ''Say hi''), (''sampling_params'', JDict sp)])] \<and>
         dict_get sp ''stream'' = Some (JBool False) \<and>
         dict_get sp ''temperature'' = Some (JFloat 0.7)) \<and>
   handler exact_world job_stream =
     ([(''http://0.0.0.0:30000/generate'', [(''Content-Type'', ''application/json'')],
        JDict [(''text'', JStr ''Say hi''),
               (''sampling_params'',
                JDict [(''stream'', JBool False), (''temperature'', JFloat 0.7)])])],
      Inr [(''request_id'', JStr ''0b0e7f6a-7a59-4c55-9d0a-3d1f6c8e2a11''),
           (''model_name'', JStr ''unknown''),
           (''execution_time_ms'', JInt 500),
           (''status'', JStr ''success''), (''text_output'', JStr ''Hi!''),
           (''error_message'', JNull)])"
proof -
  let ?v = "\<lparr>prompt = ''Say hi'',
          sampling_params = [(''stream'', JBool True), (''temperature'', JFloat 0.7)]\<rparr>"
  from handler_post_body [OF parse_job_stream, of exact_world] obtain sp where
    sp: "fst (handler exact_world job_stream) =
           [(generate_url exact_world, headers,
             JDict [(''text'', JStr (prompt ?v)), (''sampling_params'', JDict sp)])]"
      "dict_get sp ''stream'' = Some (JBool False)"
      "\<forall>k. k \<noteq> ''stream'' \<longrightarrow> dict_get sp k = dict_get (sampling_params ?v) k"
    by blast
  from sp(3) have "dict_get sp ''temperature'' = Some (JFloat 0.7)"
    by (simp add: dict_get_def)
  with sp(1,2) have a: "\<exists>sp. fst (handler exact_world job_stream) =
           [(''http://0.0.0.0:30000/generate'', [(''Content-Type'', ''application/json'')],
             JDict [(''text'', JStr ''Say hi''), (''sampling_params'', JDict sp)])] \<and>
         dict_get sp ''stream'' = Some (JBool False) \<and>
         dict_get sp ''temperature'' = Some (JFloat 0.7)"
    by (simp add: generate_url_def headers_def exact_world_def)
  have b: "handler exact_world job_stream =
     ([(''http://0.0.0.0:30000/generate'', [(''Content-Type'', ''application/json'')],
        JDict [(''text'', JStr ''Say hi''),
               (''sampling_params'',
                JDict [(''stream'', JBool False), (''temperature'', JFloat 0.7)])])],
      Inr [(''request_id'', JStr ''0b0e7f6a-7a59-4c55-9d0a-3d1f6c8e2a11''),
           (''model_name'', JStr ''unknown''),
           (''execution_time_ms'', JInt 500),
           (''status'', JStr ''success''), (''text_output'', JStr ''Hi!''),
           (''error_message'', JNull)])"
    by (simp add: model_defs demo_defs exact_world_def exact_server_def)
  from parse_job_stream a b show ?thesis by blast
qed

section \<open>Downstream failures (C3)\<close>

text \<open>
  Claim C3, as amended. For every job that passes validation: if \<^verbatim>\<open>requests.post\<close> raises
  a request exception (a failure of the transport), or returns a response whose status code
  is from 400 to 599, then the handler returns the envelope with \<^verbatim>\<open>status\<close> \<^verbatim>\<open>"error"\<close>,
  \<^verbatim>\<open>text_output\<close> empty and \<^verbatim>\<open>error_message\<close> the text
  \<^verbatim>\<open>"Request to SGLang server failed: "\<close> followed by \<^verbatim>\<open>str(e)\<close>, where \<open>e\<close> is the
  exception raised: the transport's, or the \<^verbatim>\<open>HTTPError\<close> that carries the status code,
  the reason and the URL.
\<close>

theorem handler_downstream_failure:
  assumes "parse_job job = Inr v"
    and "post w (generate_url w) headers (build_payload v) = Raised m \<and> e = RequestException m \<or>
         (\<exists>r. post w (generate_url w) headers (build_payload v) = Returned r \<and>
              400 \<le> status_code r \<and> status_code r < 600 \<and>
              e = HTTPError (status_code r) (reason r) (url r))"
  shows "snd (handler w job) =
     Inr [(''request_id'', JStr (uuid4 w)),
          (''model_name'', JStr (environ_get (environ w) ''MODEL_NAME'' ''unknown'')),
          (''execution_time_ms'', JInt (elapsed_ms w)),
          (''status'', JStr ''error''), (''text_output'', JStr ''''),
          (''error_message'', JStr (''Request to SGLang server failed: '' @ str_exn w e))]"
proof -
  from assms(2) have "snd (run_inference w (build_payload v) []) = Inl e \<and> is_RequestException e"
    by (auto simp: run_inference_Raised run_inference_bad_status)
  with assms(1) show ?thesis by (simp add: handler_caught)
qed

text \<open>
  The theorem at a refused connection and at a reply with status 500.
\<close>

theorem handler_downstream_failure_witness:
  "snd (handler (demo_world Map.empty 10 10.5 (Raised ''Connection refused'')) job_hi) =
     Inr [(''request_id'', JStr ''0b0e7f6a-7a59-4c55-9d0a-3d1f6c8e2a11''),
          (''model_name'', JStr ''unknown''),
          (''execution_time_ms'', JInt 500),
          (''status'', JStr ''error''), (''text_output'', JStr ''''),
          (''error_message'', JStr ''Request to SGLang server failed: Connection refused'')] \<and>
   snd (handler (demo_world Map.empty 10 10.5 (reply 500 (JDict [(''text'', JStr ''Hi!'')]))) job_hi) =
     Inr [(''request_id'', JStr ''0b0e7f6a-7a59-4c55-9d0a-3d1f6c8e2a11''),
          (''model_name'', JStr ''unknown''),
          (''execution_time_ms'', JInt 500),
          (''status'', JStr ''error''), (''text_output'', JStr ''''),
          (''error_message'',
           JStr ''Request to SGLang server failed: status for url: http://0.0.0.0:30000/generate'')]"
proof -
  let ?v = "\<lparr>prompt = ''Say hi'', sampling_params = [(''max_new_tokens'', JInt 5)]\<rparr>"
  have p: "parse_job job_hi = Inr ?v"
    by (simp add: parse_job_def job_hi_def dict_get_def validate_prompt_def
        validate_sampling_params_def)
  have a: "post (demo_world Map.empty 10 10.5 (Raised ''Connection refused''))
             (generate_url (demo_world Map.empty 10 10.5 (Raised ''Connection refused'')))
             headers (build_payload ?v) = Raised ''Connection refused'' \<and>
           RequestException ''Connection refused'' = RequestException ''Connection refused'' \<or>
         (\<exists>r. post (demo_world Map.empty 10 10.5 (Raised ''Connection refused''))
             (generate_url (demo_world Map.empty 10 10.5 (Raised ''Connection refused'')))
             headers (build_payload ?v) = Returned r \<and>
              400 \<le> status_code r \<and> status_code r < 600 \<and>
              RequestException ''Connection refused'' = HTTPError (status_code r) (reason r) (url r))"
    by (simp add: demo_world_def)
  let ?w5 = "demo_world Map.empty 10 10.5 (reply 500 (JDict [(''text'', JStr ''Hi!'')]))"
  have b: "post ?w5 (generate_url ?w5) headers (build_payload ?v) = Raised m \<and>
             HTTPError 500 ''status'' ''http://0.0.0.0:30000/generate'' = RequestException m \<or>
           (\<exists>r. post ?w5 (generate_url ?w5) headers (build_payload ?v) = Returned r \<and>
              400 \<le> status_code r \<and> status_code r < 600 \<and>
              HTTPError 500 ''status'' ''http://0.0.0.0:30000/generate'' =
                HTTPError (status_code r) (reason r) (url r))" for m
    by (simp add: demo_world_def reply_def)
  show ?thesis
    using handler_downstream_failure [OF p a] handler_downstream_failure [OF p b]
    by (simp add: demo_world_def environ_get_def elapsed_ms_def py_int_def)
qed

text \<open>
  Claim C3 as stated, for any status outside 2xx, fails: \<^verbatim>\<open>raise_for_status\<close> raises for
  4xx and 5xx only (line 89). A reply with status 300 and a JSON object as body is read like
  a success.
\<close>

theorem handler_redirect_status_counterexample:
  "snd (handler (demo_world Map.empty 10 10.5 (reply 300 (JDict [(''text'', JStr ''Hi!'')]))) job_hi) =
     Inr [(''request_id'', JStr ''0b0e7f6a-7a59-4c55-9d0a-3d1f6c8e2a11''),
          (''model_name'', JStr ''unknown''),
          (''execution_time_ms'', JInt 500),
          (''status'', JStr ''success''), (''text_output'', JStr ''Hi!''),
          (''error_message'', JNull)]"
  by (simp add: model_defs demo_defs)

section \<open>Missing or mistyped prompt (C4)\<close>

text \<open>
  Claim C4. For every job whose \<^verbatim>\<open>input\<close> is a dictionary that has no \<^verbatim>\<open>prompt\<close> key, or
  whose \<^verbatim>\<open>prompt\<close> is not a string, validation fails with some exception \<open>e\<close>; the
  handler makes no call to the server and returns the envelope with \<^verbatim>\<open>status\<close>
  \<^verbatim>\<open>"error"\<close>, \<^verbatim>\<open>text_output\<close> empty and \<^verbatim>\<open>error_message\<close> the string
  \<^verbatim>\<open>"Input validation failed: "\<close> followed by \<^verbatim>\<open>str(e)\<close>.
\<close>

theorem handler_prompt_missing_or_not_text:
  assumes "subscript job ''input'' = Inr (JDict inp)"
    and "dict_get inp ''prompt'' = None \<or>
         (\<exists>x. dict_get inp ''prompt'' = Some x \<and> (\<forall>s. x \<noteq> JStr s))"
  shows "\<exists>e. parse_job job = Inl e \<and>
           handler w job =
             ([], Inr [(''request_id'', JStr (uuid4 w)),
                       (''model_name'', JStr (environ_get (environ w) ''MODEL_NAME'' ''unknown'')),
                       (''execution_time_ms'', JInt (elapsed_ms w)),
                       (''status'', JStr ''error''), (''text_output'', JStr ''''),
                       (''error_message'', JStr (''Input validation failed: '' @ str_exn w e))])"
proof -
  from assms(2) have "\<exists>es. validate_prompt inp = Inl es"
    by (cases "dict_get inp ''prompt''")
       (auto simp: validate_prompt_def split: json.splits)
  then have "\<exists>e. APIInput_parse_obj (JDict inp) = Inl e"
    by (auto split: sum.splits)
  with assms(1) obtain e where "parse_job job = Inl e"
    by (auto simp: parse_job_def)
  then show ?thesis by (auto simp: handler_invalid)
qed

text \<open>
  The theorem at an input without \<^verbatim>\<open>prompt\<close> and at an input whose \<^verbatim>\<open>prompt\<close> is 42.
\<close>

theorem handler_prompt_missing_or_not_text_witness:
  "handler (demo_world Map.empty 10 10.5 (reply 200 (JDict [(''text'', JStr ''Hi!'')]))) job_no_prompt =
     ([], Inr [(''request_id'', JStr ''0b0e7f6a-7a59-4c55-9d0a-3d1f6c8e2a11''),
               (''model_name'', JStr ''unknown''),
               (''execution_time_ms'', JInt 500),
               (''status'', JStr ''error''), (''text_output'', JStr ''''),
               (''error_message'',
                JStr ''Input validation failed: 1 validation error for APIInput'')]) \<and>
   handler (demo_world Map.empty 10 10.5 (reply 200 (JDict [(''text'', JStr ''Hi!'')]))) job_int_prompt =
     ([], Inr [(''request_id'', JStr ''0b0e7f6a-7a59-4c55-9d0a-3d1f6c8e2a11''),
               (''model_name'', JStr ''unknown''),
               (''execution_time_ms'', JInt 500),
               (''status'', JStr ''error''), (''text_output'', JStr ''''),
               (''error_message'',
                JStr ''Input validation failed: 1 validation error for APIInput'')])"
proof -
  let ?w = "demo_world Map.empty 10 10.5 (reply 200 (JDict [(''text'', JStr ''Hi!'')]))"
  have s1: "subscript job_no_prompt ''input'' = Inr (JDict [(''sampling_params'', JDict [])])"
    by (simp add: job_no_prompt_def dict_get_def)
  have h1: "dict_get [(''sampling_params'', JDict [])] ''prompt'' = None \<or>
         (\<exists>x. dict_get [(''sampling_params'', JDict [])] ''prompt'' = Some x \<and> (\<forall>s. x \<noteq> JStr s))"
    by (simp add: dict_get_def)
  have s2: "subscript job_int_prompt ''input'' = Inr (JDict [(''prompt'', JInt 42)])"
    by (simp add: job_int_prompt_def dict_get_def)
  have h2: "dict_get [(''prompt'', JInt 42)] ''prompt'' = None \<or>
         (\<exists>x. dict_get [(''prompt'', JInt 42)] ''prompt'' = Some x \<and> (\<forall>s. x \<noteq> JStr s))"
    by (simp add: dict_get_def)
  have e1: "parse_job job_no_prompt = Inl (ValidationError [Missing ''prompt''])"
    by (simp add: parse_job_def job_no_prompt_def dict_get_def validate_prompt_def
        validate_sampling_params_def)
  have e2: "parse_job job_int_prompt = Inl (ValidationError [StringType ''prompt''])"
    by (simp add: parse_job_def job_int_prompt_def dict_get_def validate_prompt_def
        validate_sampling_params_def)
  show ?thesis
    using handler_prompt_missing_or_not_text [OF s1 h1, of ?w]
      handler_prompt_missing_or_not_text [OF s2 h2, of ?w] e1 e2
    by (auto simp: demo_world_def environ_get_def elapsed_ms_def py_int_def)
qed

section \<open>A successful reply (C5)\<close>

text \<open>
  Claim C5. For every job that passes validation, when the server answers with a status from
  200 to 299 and a JSON object as body: if the object has \<^verbatim>\<open>"text"\<close> equal to a string
  \<open>s\<close>, the envelope has \<^verbatim>\<open>status\<close> \<^verbatim>\<open>"success"\<close>, \<^verbatim>\<open>text_output\<close> \<open>s\<close> and
  \<^verbatim>\<open>error_message\<close> null; if the object has no \<^verbatim>\<open>"text"\<close>, the envelope has \<^verbatim>\<open>status\<close>
  \<^verbatim>\<open>"success"\<close> and an empty \<^verbatim>\<open>text_output\<close>.
\<close>

theorem handler_success_text:
  assumes "parse_job job = Inr v"
    and "post w (generate_url w) headers (build_payload v) = Returned r"
    and "200 \<le> status_code r" and "status_code r < 300"
    and "body r = Inr (JDict d)"
  shows "(\<forall>s. dict_get d ''text'' = Some (JStr s) \<longrightarrow>
            snd (handler w job) =
              Inr [(''request_id'', JStr (uuid4 w)),
                   (''model_name'', JStr (environ_get (environ w) ''MODEL_NAME'' ''unknown'')),
                   (''execution_time_ms'', JInt (elapsed_ms w)),
                   (''status'', JStr ''success''), (''text_output'', JStr s),
                   (''error_message'', JNull)]) \<and>
         (dict_get d ''text'' = None \<longrightarrow>
            snd (handler w job) =
              Inr [(''request_id'', JStr (uuid4 w)),
                   (''model_name'', JStr (environ_get (environ w) ''MODEL_NAME'' ''unknown'')),
                   (''execution_time_ms'', JInt (elapsed_ms w)),
                   (''status'', JStr ''success''), (''text_output'', JStr ''''),
                   (''error_message'', JNull)])"
proof -
  from assms(3,4) have "\<not> (400 \<le> status_code r \<and> status_code r < 600)" by simp
  with assms(2,5) have ri: "snd (run_inference w (build_payload v) []) =
      Inr (case dict_get d ''text'' of None \<Rightarrow> JStr '''' | Some x \<Rightarrow> x)"
    by (simp add: run_inference_object)
  show ?thesis
  proof (intro conjI allI impI)
    fix s assume "dict_get d ''text'' = Some (JStr s)"
    with ri have "snd (run_inference w (build_payload v) []) = Inr (JStr s)" by simp
    with assms(1) show "snd (handler w job) =
              Inr [(''request_id'', JStr (uuid4 w)),
                   (''model_name'', JStr (environ_get (environ w) ''MODEL_NAME'' ''unknown'')),
                   (''execution_time_ms'', JInt (elapsed_ms w)),
                   (''status'', JStr ''success''), (''text_output'', JStr s),
                   (''error_message'', JNull)]"
      by (simp add: handler_generated)
  next
    assume "dict_get d ''text'' = None"
    with ri have "snd (run_inference w (build_payload v) []) = Inr (JStr '''')" by simp
    with assms(1) show "snd (handler w job) =
              Inr [(''request_id'', JStr (uuid4 w)),
                   (''model_name'', JStr (environ_get (environ w) ''MODEL_NAME'' ''unknown'')),
                   (''execution_time_ms'', JInt (elapsed_ms w)),
                   (''status'', JStr ''success''), (''text_output'', JStr ''''),
                   (''error_message'', JNull)]"
      by (simp add: handler_generated)
  qed
qed

text \<open>
  The theorem at the body \<^verbatim>\<open>{"text": "hello world"}\<close> and at a body without \<^verbatim>\<open>"text"\<close>.
\<close>

theorem handler_success_text_witness:
  "snd (handler (demo_world (named ''llama'') 10 10.5 (reply 200 (JDict [(''text'', JStr ''hello world'')]))) job_hi) =
     Inr [(''request_id'', JStr ''0b0e7f6a-7a59-4c55-9d0a-3d1f6c8e2a11''),
          (''model_name'', JStr ''llama''),
          (''execution_time_ms'', JInt 500),
          (''status'', JStr ''success''), (''text_output'', JStr ''hello world''),
          (''error_message'', JNull)] \<and>
   snd (handler (demo_world (named ''llama'') 10 10.5 (reply 200 (JDict [(''meta_info'', JDict [])]))) job_hi) =
     Inr [(''request_id'', JStr ''0b0e7f6a-7a59-4c55-9d0a-3d1f6c8e2a11''),
          (''model_name'', JStr ''llama''),
          (''execution_time_ms'', JInt 500),
          (''status'', JStr ''success''), (''text_output'', JStr ''''),
          (''error_message'', JNull)]"
proof -
  let ?r1 = "\<lparr>status_code = 200, reason = ''status'', url = ''http://0.0.0.0:30000/generate'',
              body = Inr (JDict [(''text'', JStr ''hello world'')])\<rparr>"
  let ?r2 = "\<lparr>status_code = 200, reason = ''status'', url = ''http://0.0.0.0:30000/generate'',
              body = Inr (JDict [(''meta_info'', JDict [])])\<rparr>"
  let ?w1 = "demo_world (named ''llama'') 10 10.5 (reply 200 (JDict [(''text'', JStr ''hello world'')]))"
  let ?w2 = "demo_world (named ''llama'') 10 10.5 (reply 200 (JDict [(''meta_info'', JDict [])]))"
  have p1: "post ?w1 (generate_url ?w1) headers
      (build_payload \<lparr>prompt = ''Say hi'', sampling_params = [(''max_new_tokens'', JInt 5)]\<rparr>) = Returned ?r1"
    by (simp add: demo_world_def reply_def)
  have p2: "post ?w2 (generate_url ?w2) headers
      (build_payload \<lparr>prompt = ''Say hi'', sampling_params = [(''max_new_tokens'', JInt 5)]\<rparr>) = Returned ?r2"
    by (simp add: demo_world_def reply_def)
  have a: "200 \<le> status_code ?r1" "status_code ?r1 < 300"
    "body ?r1 = Inr (JDict [(''text'', JStr ''hello world'')])" by simp_all
  have b: "200 \<le> status_code ?r2" "status_code ?r2 < 300"
    "body ?r2 = Inr (JDict [(''meta_info'', JDict [])])" by simp_all
  show ?thesis
    using handler_success_text [OF parse_job_hi p1 a] handler_success_text [OF parse_job_hi p2 b]
    by (simp add: dict_get_def demo_world_def named_def environ_get_def elapsed_ms_def py_int_def)
qed

section \<open>The shape of every envelope (C6)\<close>

lemma handler_envelope_shape:
  assumes "snd (handler w job) = Inr env"
  shows "\<exists>st t em. env =
           [(''request_id'', JStr (uuid4 w)),
            (''model_name'', JStr (environ_get (environ w) ''MODEL_NAME'' ''unknown'')),
            (''execution_time_ms'', JInt (elapsed_ms w)),
            (''status'', JStr st), (''text_output'', JStr t), (''error_message'', em)] \<and>
         (st = ''error'' \<and> t = '''' \<and> (\<exists>m. em = JStr m) \<or> st = ''success'' \<and> em = JNull)"
proof (cases "parse_job job")
  case (Inl e)
  with assms show ?thesis by (auto simp: handler_invalid)
next
  case (Inr v)
  show ?thesis
  proof (cases "snd (run_inference w (build_payload v) [])")
    case (Inl e)
    show ?thesis
    proof (cases "is_RequestException e")
      case True
      with Inr Inl assms show ?thesis by (auto simp: handler_caught)
    next
      case False
      with Inr Inl assms show ?thesis by (simp add: handler_uncaught)
    qed
  next
    case g: (Inr g)
    show ?thesis
    proof (cases "\<exists>s. g = JStr s")
      case True
      with Inr g assms show ?thesis by (auto simp: handler_generated)
    next
      case False
      then have "\<And>s. g \<noteq> JStr s" by blast
      from handler_generated_not_str [OF Inr g this] assms show ?thesis by auto
    qed
  qed
qed

lemma py_int_nonneg: "0 \<le> x \<Longrightarrow> 0 \<le> py_int x"
  by (simp add: py_int_def)

lemma elapsed_ms_nonneg: "start_clock w \<le> end_clock w \<Longrightarrow> 0 \<le> elapsed_ms w"
  by (simp add: elapsed_ms_def py_int_nonneg)

text \<open>
  Claim C6, as amended. Every dictionary that \<^verbatim>\<open>handler\<close> returns, on the success path and
  on both error paths, has exactly the six fields \<^verbatim>\<open>request_id\<close>, \<^verbatim>\<open>model_name\<close>,
  \<^verbatim>\<open>execution_time_ms\<close>, \<^verbatim>\<open>status\<close>, \<^verbatim>\<open>text_output\<close>, \<^verbatim>\<open>error_message\<close>; the status is
  \<^verbatim>\<open>"success"\<close> or \<^verbatim>\<open>"error"\<close>; it is \<^verbatim>\<open>"error"\<close> exactly when \<^verbatim>\<open>error_message\<close> is not
  null; \<^verbatim>\<open>"error"\<close> implies an empty \<^verbatim>\<open>text_output\<close>; \<^verbatim>\<open>"success"\<close> implies a null
  \<^verbatim>\<open>error_message\<close>; and \<^verbatim>\<open>execution_time_ms\<close> is an integer, which is not negative
  whenever the second reading of the clock is not earlier than the first.
\<close>

theorem handler_envelope_well_formed:
  assumes "snd (handler w job) = Inr env"
  shows "\<exists>rid mn ms st t em. env =
           [(''request_id'', JStr rid), (''model_name'', JStr mn),
            (''execution_time_ms'', JInt ms), (''status'', JStr st),
            (''text_output'', JStr t), (''error_message'', em)] \<and>
         (st = ''success'' \<or> st = ''error'') \<and>
         (em = JNull \<or> (\<exists>m. em = JStr m)) \<and>
         ((st = ''error'') = (em \<noteq> JNull)) \<and>
         (st = ''error'' \<longrightarrow> t = '''') \<and>
         (st = ''success'' \<longrightarrow> em = JNull) \<and>
         (start_clock w \<le> end_clock w \<longrightarrow> 0 \<le> ms)"
proof -
  from handler_envelope_shape [OF assms] obtain st t em where
    env: "env = [(''request_id'', JStr (uuid4 w)),
            (''model_name'', JStr (environ_get (environ w) ''MODEL_NAME'' ''unknown'')),
            (''execution_time_ms'', JInt (elapsed_ms w)),
            (''status'', JStr st), (''text_output'', JStr t), (''error_message'', em)]"
    and c: "st = ''error'' \<and> t = '''' \<and> (\<exists>m. em = JStr m) \<or> st = ''success'' \<and> em = JNull"
    by blast
  from c have "(st = ''success'' \<or> st = ''error'') \<and>
         (em = JNull \<or> (\<exists>m. em = JStr m)) \<and>
         ((st = ''error'') = (em \<noteq> JNull)) \<and>
         (st = ''error'' \<longrightarrow> t = '''') \<and>
         (st = ''success'' \<longrightarrow> em = JNull)"
    by auto
  moreover have "start_clock w \<le> end_clock w \<longrightarrow> 0 \<le> elapsed_ms w"
    by (simp add: elapsed_ms_nonneg)
  ultimately show ?thesis using env by blast
qed

text \<open>
  The theorem at a refused connection, the clock going from 10 to 10.5 seconds.
\<close>

theorem handler_envelope_well_formed_witness:
  "start_clock (demo_world Map.empty 10 10.5 (Raised ''Connection refused'')) \<le>
   end_clock (demo_world Map.empty 10 10.5 (Raised ''Connection refused'')) \<and>
   (\<exists>rid mn ms.
      snd (handler (demo_world Map.empty 10 10.5 (Raised ''Connection refused'')) job_hi) =
        Inr [(''request_id'', JStr rid), (''model_name'', JStr mn),
             (''execution_time_ms'', JInt ms), (''status'', JStr ''error''),
             (''text_output'', JStr ''''),
             (''error_message'', JStr ''Request to SGLang server failed: Connection refused'')] \<and>
      0 \<le> ms)"
proof -
  let ?w = "demo_world Map.empty 10 10.5 (Raised ''Connection refused'')"
  let ?env = "[(''request_id'', JStr ''0b0e7f6a-7a59-4c55-9d0a-3d1f6c8e2a11''),
          (''model_name'', JStr ''unknown''),
          (''execution_time_ms'', JInt 500),
          (''status'', JStr ''error''), (''text_output'', JStr ''''),
          (''error_message'', JStr ''Request to SGLang server failed: Connection refused'')]"
  have h: "snd (handler ?w job_hi) = Inr ?env"
    by (simp add: model_defs demo_defs)
  have c: "start_clock ?w \<le> end_clock ?w" by (simp add: demo_world_def)
  from handler_envelope_well_formed [OF h] c have "\<exists>rid mn ms. ?env =
        [(''request_id'', JStr rid), (''model_name'', JStr mn),
             (''execution_time_ms'', JInt ms), (''status'', JStr ''error''),
             (''text_output'', JStr ''''),
             (''error_message'', JStr ''Request to SGLang server failed: Connection refused'')] \<and>
      0 \<le> ms"
    by auto
  with h c show ?thesis by simp
qed

text \<open>
  Claim C6 as stated, with \<^verbatim>\<open>execution_time_ms\<close> never negative, fails: \<^verbatim>\<open>time.time()\<close> is
  the wall clock, and the field has no lower bound. With the clock set back by a second
  between the two readings, the envelope carries \<open>- 1000\<close>.
\<close>

theorem handler_clock_set_back_counterexample:
  "snd (handler (demo_world Map.empty 10 9 (reply 200 (JDict [(''text'', JStr ''Hi!'')]))) job_hi) =
     Inr [(''request_id'', JStr ''0b0e7f6a-7a59-4c55-9d0a-3d1f6c8e2a11''),
          (''model_name'', JStr ''unknown''),
          (''execution_time_ms'', JInt (- 1000)),
          (''status'', JStr ''success''), (''text_output'', JStr ''Hi!''),
          (''error_message'', JNull)]"
  by (simp add: model_defs demo_defs)

section \<open>The model name (C7)\<close>

lemma handler_model_name:
  assumes "snd (handler w job) = Inr env"
  shows "dict_get env ''model_name'' =
           Some (JStr (environ_get (environ w) ''MODEL_NAME'' ''unknown''))"
proof -
  from handler_envelope_shape [OF assms] obtain st t em where
    "env = [(''request_id'', JStr (uuid4 w)),
            (''model_name'', JStr (environ_get (environ w) ''MODEL_NAME'' ''unknown'')),
            (''execution_time_ms'', JInt (elapsed_ms w)),
            (''status'', JStr st), (''text_output'', JStr t), (''error_message'', em)]"
    by blast
  then show ?thesis by (simp add: dict_get_def)
qed

text \<open>
  Claim C7, as amended. The handler reads \<^verbatim>\<open>MODEL_NAME\<close> from the environment at each
  invocation (line 54). For any two invocations, with any jobs and any replies, that each
  return an envelope: if \<^verbatim>\<open>MODEL_NAME\<close> has the same value, or is unset, in the environment
  at both invocations, the two \<^verbatim>\<open>model_name\<close> fields are equal, and they hold that value
  (\<^verbatim>\<open>"unknown"\<close> when unset).
\<close>

theorem handler_model_name_follows_environ:
  assumes "environ w1 ''MODEL_NAME'' = environ w2 ''MODEL_NAME''"
    and "snd (handler w1 job1) = Inr env1"
    and "snd (handler w2 job2) = Inr env2"
  shows "dict_get env1 ''model_name'' = dict_get env2 ''model_name'' \<and>
         dict_get env1 ''model_name'' =
           Some (JStr (case environ w1 ''MODEL_NAME'' of None \<Rightarrow> ''unknown'' | Some n \<Rightarrow> n))"
  using assms(1) handler_model_name [OF assms(2)] handler_model_name [OF assms(3)]
  by (simp add: environ_get_def)

text \<open>
  The theorem at two runs of the handler under the same environment, one failing and one
  succeeding: both envelopes carry the name from the environment.
\<close>

theorem handler_model_name_follows_environ_witness:
  "environ (demo_world (named ''llama'') 10 10.5 (Raised ''Connection refused'')) ''MODEL_NAME'' =
   environ (demo_world (named ''llama'') 20 20.25 (reply 200 (JDict [(''text'', JStr ''Hi!'')]))) ''MODEL_NAME'' \<and>
   snd (handler (demo_world (named ''llama'') 10 10.5 (Raised ''Connection refused'')) job_hi) =
     Inr [(''request_id'', JStr ''0b0e7f6a-7a59-4c55-9d0a-3d1f6c8e2a11''),
          (''model_name'', JStr ''llama''),
          (''execution_time_ms'', JInt 500),
          (''status'', JStr ''error''), (''text_output'', JStr ''''),
          (''error_message'', JStr ''Request to SGLang server failed: Connection refused'')] \<and>
   snd (handler (demo_world (named ''llama'') 20 20.25 (reply 200 (JDict [(''text'', JStr ''Hi!'')]))) job_hi) =
     Inr [(''request_id'', JStr ''0b0e7f6a-7a59-4c55-9d0a-3d1f6c8e2a11''),
          (''model_name'', JStr ''llama''),
          (''execution_time_ms'', JInt 250),
          (''status'', JStr ''success''), (''text_output'', JStr ''Hi!''),
          (''error_message'', JNull)] \<and>
   dict_get [(''request_id'', JStr ''0b0e7f6a-7a59-4c55-9d0a-3d1f6c8e2a11''),
          (''model_name'', JStr ''llama''),
          (''execution_time_ms'', JInt 500),
          (''status'', JStr ''error''), (''text_output'', JStr ''''),
          (''error_message'', JStr ''Request to SGLang server failed: Connection refused'')] ''model_name'' =
   dict_get [(''request_id'', JStr ''0b0e7f6a-7a59-4c55-9d0a-3d1f6c8e2a11''),
          (''model_name'', JStr ''llama''),
          (''execution_time_ms'', JInt 250),
          (''status'', JStr ''success''), (''text_output'', JStr ''Hi!''),
          (''error_message'', JNull)] ''model_name''"
proof -
  let ?w1 = "demo_world (named ''llama'') 10 10.5 (Raised ''Connection refused'')"
  let ?w2 = "demo_world (named ''llama'') 20 20.25 (reply 200 (JDict [(''text'', JStr ''Hi!'')]))"
  have e: "environ ?w1 ''MODEL_NAME'' = environ ?w2 ''MODEL_NAME''"
    by (simp add: demo_world_def)
  have h1: "snd (handler ?w1 job_hi) =
     Inr [(''request_id'', JStr ''0b0e7f6a-7a59-4c55-9d0a-3d1f6c8e2a11''),
          (''model_name'', JStr ''llama''),
          (''execution_time_ms'', JInt 500),
          (''status'', JStr ''error''), (''text_output'', JStr ''''),
          (''error_message'', JStr ''Request to SGLang server failed: Connection refused'')]"
    by (simp add: model_defs demo_defs)
  have h2: "snd (handler ?w2 job_hi) =
     Inr [(''request_id'', JStr ''0b0e7f6a-7a59-4c55-9d0a-3d1f6c8e2a11''),
          (''model_name'', JStr ''llama''),
          (''execution_time_ms'', JInt 250),
          (''status'', JStr ''success''), (''text_output'', JStr ''Hi!''),
          (''error_message'', JNull)]"
    by (simp add: model_defs demo_defs)
  from handler_model_name_follows_environ [OF e h1 h2] e h1 h2 show ?thesis by blast
qed

text \<open>
  Claim C7 as stated, with the name fixed whatever happens to the environment, fails: two
  invocations that differ in the value of \<^verbatim>\<open>MODEL_NAME\<close> only return different names.
\<close>

theorem handler_model_name_changes_counterexample:
  "snd (handler (demo_world (named ''llama'') 10 10.5 (reply 200 (JDict [(''text'', JStr ''Hi!'')]))) job_hi) =
     Inr [(''request_id'', JStr ''0b0e7f6a-7a59-4c55-9d0a-3d1f6c8e2a11''),
          (''model_name'', JStr ''llama''),
          (''execution_time_ms'', JInt 500),
          (''status'', JStr ''success''), (''text_output'', JStr ''Hi!''),
          (''error_message'', JNull)] \<and>
   snd (handler (demo_world (named ''qwen'') 10 10.5 (reply 200 (JDict [(''text'', JStr ''Hi!'')]))) job_hi) =
     Inr [(''request_id'', JStr ''0b0e7f6a-7a59-4c55-9d0a-3d1f6c8e2a11''),
          (''model_name'', JStr ''qwen''),
          (''execution_time_ms'', JInt 500),
          (''status'', JStr ''success''), (''text_output'', JStr ''Hi!''),
          (''error_message'', JNull)] \<and>
   JStr ''llama'' \<noteq> JStr ''qwen''"
  by (simp add: model_defs demo_defs)

section \<open>Which inputs validation accepts (C8)\<close>

text \<open>
  Claim C8, as amended. Validation accepts a prompt exactly when it is text, the empty string
  included: an input dictionary passes \<^verbatim>\<open>APIInput.parse_obj\<close> if and only if its
  \<^verbatim>\<open>prompt\<close> is a string and its \<^verbatim>\<open>sampling_params\<close> is absent or a dictionary.
\<close>

theorem parse_obj_accepts_any_text_prompt:
  "(\<exists>v. APIInput_parse_obj (JDict inp) = Inr v) =
     ((\<exists>s. dict_get inp ''prompt'' = Some (JStr s)) \<and>
      (dict_get inp ''sampling_params'' = None \<or>
       (\<exists>sp. dict_get inp ''sampling_params'' = Some (JDict sp))))"
  by (auto simp: validate_prompt_def validate_sampling_params_def
      split: sum.splits option.splits json.splits)

text \<open>
  The theorem at the input \<^verbatim>\<open>{"prompt": ""}\<close>: it is accepted.
\<close>

theorem parse_obj_accepts_any_text_prompt_witness:
  "dict_get [(''prompt'', JStr '''')] ''prompt'' = Some (JStr '''') \<and>
   dict_get [(''prompt'', JStr '''')] ''sampling_params'' = None \<and>
   (\<exists>v. APIInput_parse_obj (JDict [(''prompt'', JStr '''')]) = Inr v)"
  using parse_obj_accepts_any_text_prompt [of "[(''prompt'', JStr '''')]"]
  by (simp add: dict_get_def)

text \<open>
  Claim C8 as stated fails: the field \<^verbatim>\<open>prompt\<close> has no minimum length, and the job whose
  prompt is the empty string passes validation.
\<close>

theorem parse_job_empty_prompt_counterexample:
  "parse_job job_empty_prompt = Inr \<lparr>prompt = '''', sampling_params = []\<rparr>"
  by (simp add: parse_job_def job_empty_prompt_def dict_get_def validate_prompt_def
      validate_sampling_params_def)

section \<open>What validation keeps (C9)\<close>

text \<open>
  Claim C9. For every job that passes validation, with the validated request \<open>v\<close>: the job
  is a dictionary whose \<^verbatim>\<open>input\<close> is a dictionary; the prompt of \<open>v\<close> is the string under
  \<^verbatim>\<open>prompt\<close>, character for character; and either \<^verbatim>\<open>sampling_params\<close> is absent and \<open>v\<close>
  has the empty dictionary, or it is a dictionary and \<open>v\<close> has that same dictionary, keys
  and values as they came.
\<close>

theorem parse_job_preserves_input:
  assumes "parse_job job = Inr v"
  shows "\<exists>j inp. job = JDict j \<and> dict_get j ''input'' = Some (JDict inp) \<and>
           dict_get inp ''prompt'' = Some (JStr (prompt v)) \<and>
           (dict_get inp ''sampling_params'' = None \<and> sampling_params v = [] \<or>
            dict_get inp ''sampling_params'' = Some (JDict (sampling_params v)))"
  using assms by (rule parse_job_Inr)

text \<open>
  The theorem at a job with sampling parameters and at a job without.
\<close>

theorem parse_job_preserves_input_witness:
  "parse_job job_stream =
     Inr \<lparr>prompt = ''Say hi'',
          sampling_params = [(''stream'', JBool True), (''temperature'', JFloat 0.7)]\<rparr> \<and>
   (\<exists>j inp. job_stream = JDict j \<and> dict_get j ''input'' = Some (JDict inp) \<and>
      dict_get inp ''prompt'' = Some (JStr ''Say hi'') \<and>
      dict_get inp ''sampling_params'' =
        Some (JDict [(''stream'', JBool True), (''temperature'', JFloat 0.7)])) \<and>
   parse_job job_empty_prompt = Inr \<lparr>prompt = '''', sampling_params = []\<rparr> \<and>
   (\<exists>j inp. job_empty_prompt = JDict j \<and> dict_get j ''input'' = Some (JDict inp) \<and>
      dict_get inp ''prompt'' = Some (JStr '''') \<and>
      dict_get inp ''sampling_params'' = None)"
proof -
  have p1: "parse_job job_stream =
     Inr \<lparr>prompt = ''Say hi'',
          sampling_params = [(''stream'', JBool True), (''temperature'', JFloat 0.7)]\<rparr>"
    by (simp add: parse_job_def job_stream_def dict_get_def validate_prompt_def
        validate_sampling_params_def)
  have p2: "parse_job job_empty_prompt = Inr \<lparr>prompt = '''', sampling_params = []\<rparr>"
    by (simp add: parse_job_def job_empty_prompt_def dict_get_def validate_prompt_def
        validate_sampling_params_def)
  from parse_job_preserves_input [OF p1] have a:
    "\<exists>j inp. job_stream = JDict j \<and> dict_get j ''input'' = Some (JDict inp) \<and>
      dict_get inp ''prompt'' = Some (JStr ''Say hi'') \<and>
      dict_get inp ''sampling_params'' =
        Some (JDict [(''stream'', JBool True), (''temperature'', JFloat 0.7)])"
    by (auto simp: job_stream_def dict_get_def)
  from parse_job_preserves_input [OF p2] have b:
    "\<exists>j inp. job_empty_prompt = JDict j \<and> dict_get j ''input'' = Some (JDict inp) \<and>
      dict_get inp ''prompt'' = Some (JStr '''') \<and>
      dict_get inp ''sampling_params'' = None"
    by (auto simp: job_empty_prompt_def dict_get_def)
  from p1 p2 a b show ?thesis by blast
qed

section \<open>The default model name (C10)\<close>

lemma run_inference_environ:
  "snd (run_inference (w\<lparr>environ := e\<rparr>) p []) = snd (run_inference w p [])"
  by (simp add: run_inference_def requests_post_def generate_url_def)

lemma handler_environ_isl:
  "isl (snd (handler (w\<lparr>environ := e\<rparr>) job)) = isl (snd (handler w job))"
proof (cases "parse_job job")
  case (Inl x)
  then show ?thesis by (simp add: handler_invalid)
next
  case (Inr v)
  let ?w' = "w\<lparr>environ := e\<rparr>"
  have same: "snd (run_inference ?w' (build_payload v) []) = snd (run_inference w (build_payload v) [])"
    by (rule run_inference_environ)
  show ?thesis
  proof (cases "snd (run_inference w (build_payload v) [])")
    case x: (Inl x)
    show ?thesis
    proof (cases "is_RequestException x")
      case True
      from handler_caught [OF Inr x True] handler_caught [OF Inr x [folded same] True]
      show ?thesis by simp
    next
      case False
      from handler_uncaught [OF Inr x False] handler_uncaught [OF Inr x [folded same] False]
      show ?thesis by simp
    qed
  next
    case g: (Inr g)
    show ?thesis
    proof (cases "\<exists>s. g = JStr s")
      case True
      then obtain s where s: "g = JStr s" by blast
      from handler_generated [OF Inr g [unfolded s]]
        handler_generated [OF Inr g [folded same, unfolded s]]
      show ?thesis by simp
    next
      case False
      then have n: "\<And>s. g \<noteq> JStr s" by blast
      from handler_generated_not_str [OF Inr g n]
        handler_generated_not_str [OF Inr g [folded same] n]
      show ?thesis by auto
    qed
  qed
qed

text \<open>
  Claim C10. If \<^verbatim>\<open>MODEL_NAME\<close> is unset when the handler runs, the handler returns an
  envelope whose \<^verbatim>\<open>model_name\<close> is the string \<^verbatim>\<open>"unknown"\<close> on each of its paths: when
  validation fails, when the request raises, when the status is 4xx or 5xx, and when the
  reply is a 2xx JSON object whose \<^verbatim>\<open>"text"\<close> is absent or a string. Every envelope it returns
  has that name; and whether the handler returns an envelope does not depend on the
  environment at all, so an unset variable makes no invocation fail.
\<close>

theorem handler_model_name_unknown:
  assumes "environ w ''MODEL_NAME'' = None"
  shows "(\<forall>e. parse_job job = Inl e \<longrightarrow>
            snd (handler w job) =
              Inr [(''request_id'', JStr (uuid4 w)), (''model_name'', JStr ''unknown''),
                   (''execution_time_ms'', JInt (elapsed_ms w)),
                   (''status'', JStr ''error''), (''text_output'', JStr ''''),
                   (''error_message'', JStr (''Input validation failed: '' @ str_exn w e))]) \<and>
         (\<forall>v m. parse_job job = Inr v \<and>
                post w (generate_url w) headers (build_payload v) = Raised m \<longrightarrow>
            snd (handler w job) =
              Inr [(''request_id'', JStr (uuid4 w)), (''model_name'', JStr ''unknown''),
                   (''execution_time_ms'', JInt (elapsed_ms w)),
                   (''status'', JStr ''error''), (''text_output'', JStr ''''),
                   (''error_message'',
                    JStr (''Request to SGLang server failed: '' @
                          str_exn w (RequestException m)))]) \<and>
         (\<forall>v r. parse_job job = Inr v \<and>
                post w (generate_url w) headers (build_payload v) = Returned r \<and>
                400 \<le> status_code r \<and> status_code r < 600 \<longrightarrow>
            snd (handler w job) =
              Inr [(''request_id'', JStr (uuid4 w)), (''model_name'', JStr ''unknown''),
                   (''execution_time_ms'', JInt (elapsed_ms w)),
                   (''status'', JStr ''error''), (''text_output'', JStr ''''),
                   (''error_message'',
                    JStr (''Request to SGLang server failed: '' @
                          str_exn w (HTTPError (status_code r) (reason r) (url r))))]) \<and>
         (\<forall>v r d. parse_job job = Inr v \<and>
                post w (generate_url w) headers (build_payload v) = Returned r \<and>
                200 \<le> status_code r \<and> status_code r < 300 \<and>
                body r = Inr (JDict d) \<and> dict_get d ''text'' = None \<longrightarrow>
            snd (handler w job) =
              Inr [(''request_id'', JStr (uuid4 w)), (''model_name'', JStr ''unknown''),
                   (''execution_time_ms'', JInt (elapsed_ms w)),
                   (''status'', JStr ''success''), (''text_output'', JStr ''''),
                   (''error_message'', JNull)]) \<and>
         (\<forall>v r d s. parse_job job = Inr v \<and>
                post w (generate_url w) headers (build_payload v) = Returned r \<and>
                200 \<le> status_code r \<and> status_code r < 300 \<and>
                body r = Inr (JDict d) \<and> dict_get d ''text'' = Some (JStr s) \<longrightarrow>
            snd (handler w job) =
              Inr [(''request_id'', JStr (uuid4 w)), (''model_name'', JStr ''unknown''),
                   (''execution_time_ms'', JInt (elapsed_ms w)),
                   (''status'', JStr ''success''), (''text_output'', JStr s),
                   (''error_message'', JNull)]) \<and>
         (\<forall>env. snd (handler w job) = Inr env \<longrightarrow>
            dict_get env ''model_name'' = Some (JStr ''unknown'')) \<and>
         (\<forall>e. isl (snd (handler (w\<lparr>environ := e\<rparr>) job)) = isl (snd (handler w job)))"
proof -
  from assms have u: "environ_get (environ w) ''MODEL_NAME'' ''unknown'' = ''unknown''"
    by (simp add: environ_get_def)
  have 1: "\<forall>e. parse_job job = Inl e \<longrightarrow>
            snd (handler w job) =
              Inr [(''request_id'', JStr (uuid4 w)), (''model_name'', JStr ''unknown''),
                   (''execution_time_ms'', JInt (elapsed_ms w)),
                   (''status'', JStr ''error''), (''text_output'', JStr ''''),
                   (''error_message'', JStr (''Input validation failed: '' @ str_exn w e))]"
    by (simp add: handler_invalid u)
  have 2: "\<forall>v m. parse_job job = Inr v \<and>
                post w (generate_url w) headers (build_payload v) = Raised m \<longrightarrow>
            snd (handler w job) =
              Inr [(''request_id'', JStr (uuid4 w)), (''model_name'', JStr ''unknown''),
                   (''execution_time_ms'', JInt (elapsed_ms w)),
                   (''status'', JStr ''error''), (''text_output'', JStr ''''),
                   (''error_message'',
                    JStr (''Request to SGLang server failed: '' @
                          str_exn w (RequestException m)))]"
    by (auto simp: handler_caught run_inference_Raised u)
  have 3: "\<forall>v r. parse_job job = Inr v \<and>
                post w (generate_url w) headers (build_payload v) = Returned r \<and>
                400 \<le> status_code r \<and> status_code r < 600 \<longrightarrow>
            snd (handler w job) =
              Inr [(''request_id'', JStr (uuid4 w)), (''model_name'', JStr ''unknown''),
                   (''execution_time_ms'', JInt (elapsed_ms w)),
                   (''status'', JStr ''error''), (''text_output'', JStr ''''),
                   (''error_message'',
                    JStr (''Request to SGLang server failed: '' @
                          str_exn w (HTTPError (status_code r) (reason r) (url r))))]"
    by (auto simp: handler_caught run_inference_bad_status u)
  have obj: "snd (run_inference w (build_payload v) []) =
        Inr (case dict_get d ''text'' of None \<Rightarrow> JStr '''' | Some x \<Rightarrow> x)"
    if "post w (generate_url w) headers (build_payload v) = Returned r"
      and "200 \<le> status_code r" and "status_code r < 300" and "body r = Inr (JDict d)"
    for v r d
    using that by (simp add: run_inference_object)
  have 4: "\<forall>v r d. parse_job job = Inr v \<and>
                post w (generate_url w) headers (build_payload v) = Returned r \<and>
                200 \<le> status_code r \<and> status_code r < 300 \<and>
                body r = Inr (JDict d) \<and> dict_get d ''text'' = None \<longrightarrow>
            snd (handler w job) =
              Inr [(''request_id'', JStr (uuid4 w)), (''model_name'', JStr ''unknown''),
                   (''execution_time_ms'', JInt (elapsed_ms w)),
                   (''status'', JStr ''success''), (''text_output'', JStr ''''),
                   (''error_message'', JNull)]"
    by (auto simp: handler_generated obj u)
  have 5: "\<forall>v r d s. parse_job job = Inr v \<and>
                post w (generate_url w) headers (build_payload v) = Returned r \<and>
                200 \<le> status_code r \<and> status_code r < 300 \<and>
                body r = Inr (JDict d) \<and> dict_get d ''text'' = Some (JStr s) \<longrightarrow>
            snd (handler w job) =
              Inr [(''request_id'', JStr (uuid4 w)), (''model_name'', JStr ''unknown''),
                   (''execution_time_ms'', JInt (elapsed_ms w)),
                   (''status'', JStr ''success''), (''text_output'', JStr s),
                   (''error_message'', JNull)]"
    by (auto simp: handler_generated obj u)
  have 6: "\<forall>env. snd (handler w job) = Inr env \<longrightarrow>
            dict_get env ''model_name'' = Some (JStr ''unknown'')"
    using handler_model_name [of w job] by (simp add: u)
  have 7: "\<forall>e. isl (snd (handler (w\<lparr>environ := e\<rparr>) job)) = isl (snd (handler w job))"
    by (simp add: handler_environ_isl)
  from 1 2 3 4 5 6 7 show ?thesis by blast
qed

text \<open>
  The theorem under the empty environment, at three runs of the handler: a success, a job
  without prompt, and a refused connection.
\<close>

theorem handler_model_name_unknown_witness:
  "environ (demo_world Map.empty 10 10.5 (reply 200 (JDict [(''text'', JStr ''Hi!'')]))) ''MODEL_NAME'' = None \<and>
   snd (handler (demo_world Map.empty 10 10.5 (reply 200 (JDict [(''text'', JStr ''Hi!'')]))) job_hi) =
     Inr [(''request_id'', JStr ''0b0e7f6a-7a59-4c55-9d0a-3d1f6c8e2a11''),
          (''model_name'', JStr ''unknown''),
          (''execution_time_ms'', JInt 500),
          (''status'', JStr ''success''), (''text_output'', JStr ''Hi!''),
          (''error_message'', JNull)] \<and>
   snd (handler (demo_world Map.empty 10 10.5 (reply 200 (JDict [(''text'', JStr ''Hi!'')]))) job_no_prompt) =
     Inr [(''request_id'', JStr ''0b0e7f6a-7a59-4c55-9d0a-3d1f6c8e2a11''),
          (''model_name'', JStr ''unknown''),
          (''execution_time_ms'', JInt 500),
          (''status'', JStr ''error''), (''text_output'', JStr ''''),
          (''error_message'', JStr ''Input validation failed: 1 validation error for APIInput'')] \<and>
   environ (demo_world Map.empty 10 10.5 (Raised ''Connection refused'')) ''MODEL_NAME'' = None \<and>
   snd (handler (demo_world Map.empty 10 10.5 (Raised ''Connection refused'')) job_hi) =
     Inr [(''request_id'', JStr ''0b0e7f6a-7a59-4c55-9d0a-3d1f6c8e2a11''),
          (''model_name'', JStr ''unknown''),
          (''execution_time_ms'', JInt 500),
          (''status'', JStr ''error''), (''text_output'', JStr ''''),
          (''error_message'', JStr ''Request to SGLang server failed: Connection refused'')]"
proof -
  let ?w = "demo_world Map.empty 10 10.5 (reply 200 (JDict [(''text'', JStr ''Hi!'')]))"
  let ?w' = "demo_world Map.empty 10 10.5 (Raised ''Connection refused'')"
  let ?v = "\<lparr>prompt = ''Say hi'', sampling_params = [(''max_new_tokens'', JInt 5)]\<rparr>"
  let ?r = "\<lparr>status_code = 200, reason = ''status'', url = ''http://0.0.0.0:30000/generate'',
             body = Inr (JDict [(''text'', JStr ''Hi!'')])\<rparr>"
  have e: "environ ?w ''MODEL_NAME'' = None" by (simp add: demo_world_def)
  have e': "environ ?w' ''MODEL_NAME'' = None" by (simp add: demo_world_def)
  have p: "parse_job job_no_prompt = Inl (ValidationError [Missing ''prompt''])"
    by (simp add: parse_job_def job_no_prompt_def dict_get_def validate_prompt_def
        validate_sampling_params_def)
  have q: "post ?w (generate_url ?w) headers (build_payload ?v) = Returned ?r"
    by (simp add: demo_world_def reply_def)
  have q': "post ?w' (generate_url ?w') headers (build_payload ?v) = Raised ''Connection refused''"
    by (simp add: demo_world_def)
  have t: "dict_get [(''text'', JStr ''Hi!'')] ''text'' = Some (JStr ''Hi!'')"
    by (simp add: dict_get_def)
  from handler_model_name_unknown [OF e, of job_hi] parse_job_hi q t
  have a: "snd (handler ?w job_hi) =
     Inr [(''request_id'', JStr (uuid4 ?w)), (''model_name'', JStr ''unknown''),
          (''execution_time_ms'', JInt (elapsed_ms ?w)),
          (''status'', JStr ''success''), (''text_output'', JStr ''Hi!''),
          (''error_message'', JNull)]"
    by force
  from handler_model_name_unknown [OF e, of job_no_prompt] p
  have b: "snd (handler ?w job_no_prompt) =
     Inr [(''request_id'', JStr (uuid4 ?w)), (''model_name'', JStr ''unknown''),
          (''execution_time_ms'', JInt (elapsed_ms ?w)),
          (''status'', JStr ''error''), (''text_output'', JStr ''''),
          (''error_message'',
           JStr (''Input validation failed: '' @
                 str_exn ?w (ValidationError [Missing ''prompt''])))]"
    by blast
  from handler_model_name_unknown [OF e', of job_hi] parse_job_hi q'
  have c: "snd (handler ?w' job_hi) =
     Inr [(''request_id'', JStr (uuid4 ?w')), (''model_name'', JStr ''unknown''),
          (''execution_time_ms'', JInt (elapsed_ms ?w')),
          (''status'', JStr ''error''), (''text_output'', JStr ''''),
          (''error_message'',
           JStr (''Request to SGLang server failed: '' @
                 str_exn ?w' (RequestException ''Connection refused'')))]"
    by blast
  from a b c e e' show ?thesis
    by (simp add: demo_world_def elapsed_ms_def py_int_def)
qed

end
